theory Spec2Isabelle
  imports Complex_Main "HOL-Library.Word"
begin

section \<open>Python values, sequences and exceptions\<close>

text \<open>
  The genome engine of \<^verbatim>\<open>Network.py\<close> is embedded shallowly. Layer counts, positions,
  layer kinds and random draws are Python integers, of type \<^typ>\<open>int\<close>. The integers of
  shapes, filters, strides and widths are values of numpy's \<^verbatim>\<open>int64\<close>, 64-bit words read
  as signed numbers: \<^verbatim>\<open>np.array\<close> and every operation with an array operand compute in
  that type, and the arithmetic wraps around. Where the source computes a size from Python
  integers alone, as the expansive branch does on a descriptor none of whose layers
  \<^verbatim>\<open>random_init\<close> drew, the size is the value given here as long as it stays within
  \<^verbatim>\<open>int64\<close>; beyond that range the source goes on in unbounded integers and the
  embedding does not follow it. A tuple, a list or a one-dimensional array of such values is
  the list of its elements. A raised exception is the left summand of the
  result. Every draw from \<^verbatim>\<open>np.random\<close> is an explicit argument of the function that
  makes it.
\<close>

datatype py_error = IndexError | ValueError | TypeError | ZeroDivisionError

type_synonym int64 = "64 word"

text \<open>The integers that \<^verbatim>\<open>int64\<close> represents.\<close>

definition in64 :: "int \<Rightarrow> bool" where
  "in64 k \<longleftrightarrow> - (2 ^ 63) \<le> k \<and> k < 2 ^ 63"

text \<open>
  The floor division \<^verbatim>\<open>//\<close> of \<^verbatim>\<open>int64\<close>: the quotient of the signed values rounded
  towards minus infinity, as \<^term>\<open>(div)\<close> on \<^typ>\<open>int\<close> rounds, and 0 for a zero divisor.
  \<^verbatim>\<open>np.max\<close> of two values compares them as signed numbers.
\<close>

definition floordiv64 :: "int64 \<Rightarrow> int64 \<Rightarrow> int64" where
  "floordiv64 a b = word_of_int (sint a div sint b)"

definition max64 :: "int64 \<Rightarrow> int64 \<Rightarrow> int64" where
  "max64 a b = (if sint a \<le> sint b then b else a)"

fun then_do :: "py_error + 'a \<Rightarrow> ('a \<Rightarrow> py_error + 'b) \<Rightarrow> py_error + 'b" where
  "then_do (Inl e) f = Inl e"
| "then_do (Inr x) f = f x"

text \<open>
  The position that a Python index denotes in a sequence of \<open>n\<close> elements: an index below
  zero counts from the end, and one that falls outside the sequence denotes nothing.
\<close>

definition norm_index :: "nat \<Rightarrow> int \<Rightarrow> nat option" where
  "norm_index n i =
     (if 0 \<le> i \<and> i < int n then Some (nat i)
      else if i < 0 \<and> - int n \<le> i then Some (nat (int n + i))
      else None)"

definition remove_nth :: "nat \<Rightarrow> 'a list \<Rightarrow> 'a list" where
  "remove_nth j xs = take j xs @ drop (Suc j) xs"

definition insert_nth :: "nat \<Rightarrow> 'a \<Rightarrow> 'a list \<Rightarrow> 'a list" where
  "insert_nth j v xs = take j xs @ v # drop j xs"

text \<open>\<^verbatim>\<open>xs[i]\<close> and \<^verbatim>\<open>xs[i] = v\<close>: an index out of range raises.\<close>

definition py_index :: "'a list \<Rightarrow> int \<Rightarrow> py_error + 'a" where
  "py_index xs i =
     (case norm_index (length xs) i of None \<Rightarrow> Inl IndexError | Some j \<Rightarrow> Inr (xs ! j))"

definition py_setitem :: "'a list \<Rightarrow> int \<Rightarrow> 'a \<Rightarrow> py_error + 'a list" where
  "py_setitem xs i v =
     (case norm_index (length xs) i of None \<Rightarrow> Inl IndexError | Some j \<Rightarrow> Inr (xs[j := v]))"

text \<open>
  \<^verbatim>\<open>xs.insert(i, v)\<close> never raises: a position beyond either end is clamped to that end.
\<close>

definition py_insert :: "'a list \<Rightarrow> int \<Rightarrow> 'a \<Rightarrow> 'a list" where
  "py_insert xs i v =
     (case norm_index (length xs) i of
        Some j \<Rightarrow> insert_nth j v xs
      | None \<Rightarrow> if i < 0 then v # xs else xs @ [v])"

text \<open>\<^verbatim>\<open>xs.pop(i)\<close>, keeping the list that remains.\<close>

definition py_pop :: "'a list \<Rightarrow> int \<Rightarrow> py_error + 'a list" where
  "py_pop xs i =
     (case norm_index (length xs) i of None \<Rightarrow> Inl IndexError | Some j \<Rightarrow> Inr (remove_nth j xs))"

text \<open>
  \<^verbatim>\<open>np.insert(arr, i, v)\<close> and \<^verbatim>\<open>np.delete(arr, i)\<close> on a one-dimensional array: the
  index may be negative, \<^verbatim>\<open>np.insert\<close> also accepts the length of the array (appending),
  and an index out of bounds raises.
\<close>

definition np_insert :: "'a list \<Rightarrow> int \<Rightarrow> 'a \<Rightarrow> py_error + 'a list" where
  "np_insert xs i v =
     (if i = int (length xs) then Inr (xs @ [v])
      else case norm_index (length xs) i of
             None \<Rightarrow> Inl IndexError
           | Some j \<Rightarrow> Inr (insert_nth j v xs))"

definition np_delete :: "'a list \<Rightarrow> int \<Rightarrow> py_error + 'a list" where
  "np_delete xs i =
     (case norm_index (length xs) i of None \<Rightarrow> Inl IndexError | Some j \<Rightarrow> Inr (remove_nth j xs))"

text \<open>
  An elementwise operation of two one-dimensional numpy arrays: equal lengths, or one of
  them of length one, which is broadcast; any other pair of lengths raises.
\<close>

definition np_binop :: "('a \<Rightarrow> 'a \<Rightarrow> 'a) \<Rightarrow> 'a list \<Rightarrow> 'a list \<Rightarrow> py_error + 'a list" where
  "np_binop f xs ys =
     (if length xs = length ys then Inr (map2 f xs ys)
      else if length xs = 1 then Inr (map (f (hd xs)) ys)
      else if length ys = 1 then Inr (map (\<lambda>x. f x (hd ys)) xs)
      else Inl ValueError)"

section \<open>ShapeArithmetic\<close>

text \<open>
  \<^verbatim>\<open>compute_output(input_shape, layer_type, filter_size, stride)\<close>. The contractive branch
  computes on \<^verbatim>\<open>int64\<close> arrays; the expansive branch computes on the elements, which are
  \<^verbatim>\<open>int64\<close> scalars as soon as the stride or the filter is an array.
\<close>

definition compute_output ::
  "int64 list \<Rightarrow> int \<Rightarrow> int64 list \<Rightarrow> int64 list \<Rightarrow> py_error + int64 list" where
  "compute_output input_shape layer_type filter_size stride =
     (if layer_type < 3 then
        then_do (np_binop (-) (take 2 input_shape) (take 2 filter_size)) (\<lambda>diff.
        then_do (np_binop floordiv64 (map (\<lambda>x. x + 1) diff) (take 2 stride)) (\<lambda>output_shape.
        then_do (py_index output_shape 0) (\<lambda>o0.
        then_do (py_index output_shape 1) (\<lambda>o1.
        then_do (py_index filter_size 2) (\<lambda>c.
        Inr [max64 o0 1, max64 o1 1, c])))))
      else
        then_do (py_index input_shape 0) (\<lambda>i0.
        then_do (py_index stride 0) (\<lambda>s0.
        then_do (py_index filter_size 0) (\<lambda>f0.
        then_do (py_index input_shape 1) (\<lambda>i1.
        then_do (py_index stride 1) (\<lambda>s1.
        then_do (py_index filter_size 1) (\<lambda>f1.
        Inr [(i0 - 1) * s0 + f0, (i1 - 1) * s1 + f1])))))))"

section \<open>Descriptor (shared capability set)\<close>

text \<open>
  The catalogs of activation and initializer functions. An entry of a descriptor is an
  optional function, since \<^verbatim>\<open>None\<close> is itself an activation choice and the pooling
  layers of \<^verbatim>\<open>ConvDescriptor.add_layer\<close> store \<^verbatim>\<open>None\<close> for both.
\<close>

datatype activation = Relu | Elu | Softplus | Softsign | Sigmoid | Tanh

datatype initializer = RandomNormal | RandomUniform | GlorotNormal | GlorotUniform

definition activations :: "activation option list" where
  "activations = [None, Some Relu, Some Elu, Some Softplus, Some Softsign, Some Sigmoid, Some Tanh]"

definition initializations :: "initializer option list" where
  "initializations = [Some RandomNormal, Some RandomUniform, Some GlorotNormal, Some GlorotUniform]"

text \<open>
  \<^verbatim>\<open>class NetworkDescriptor\<close>. A dimension is the list of its components, a scalar
  dimension the list of that one number.
\<close>

record network_descriptor =
  number_hidden_layers :: int
  input_dim :: "int64 list"
  output_dim :: "int64 list"
  init_functions :: "initializer option list"
  act_functions :: "activation option list"
  batch_norm :: bool
  dropout :: bool
  dropout_probs :: "real list"

definition change_activation ::
  "'a network_descriptor_scheme \<Rightarrow> int \<Rightarrow> activation option \<Rightarrow>
   py_error + 'a network_descriptor_scheme" where
  "change_activation d layer_pos new_act_fn =
     (if layer_pos < 0 \<or> layer_pos > number_hidden_layers d then Inr d
      else then_do (py_setitem (act_functions d) layer_pos new_act_fn) (\<lambda>fs.
           Inr (d\<lparr>act_functions := fs\<rparr>)))"

definition change_weight_init ::
  "'a network_descriptor_scheme \<Rightarrow> int \<Rightarrow> initializer option \<Rightarrow>
   py_error + 'a network_descriptor_scheme" where
  "change_weight_init d layer_pos new_weight_fn =
     (if layer_pos < 0 \<or> layer_pos > number_hidden_layers d then Inr d
      else then_do (py_setitem (init_functions d) layer_pos new_weight_fn) (\<lambda>fs.
           Inr (d\<lparr>init_functions := fs\<rparr>)))"

section \<open>MLPDescriptor\<close>

text \<open>
  \<^verbatim>\<open>self.dims\<close> is a Python list when \<^verbatim>\<open>random_init\<close> has built it and a numpy array
  once \<^verbatim>\<open>np.insert\<close> or \<^verbatim>\<open>np.delete\<close> has returned it. The two hold the same elements
  and differ under \<^verbatim>\<open>+\<close>, which concatenates lists and adds arrays elementwise.
\<close>

datatype 'a pyseq = PyList "'a list" | NdArray "'a list"

fun items :: "'a pyseq \<Rightarrow> 'a list" where
  "items (PyList xs) = xs"
| "items (NdArray xs) = xs"

record mlp_descriptor = network_descriptor +
  dims :: "int64 pyseq"

text \<open>\<^verbatim>\<open>MLPDescriptor.add_layer\<close>; the dropout and batch-norm flags it receives are unused.\<close>

definition mlp_add_layer ::
  "mlp_descriptor \<Rightarrow> int \<Rightarrow> int64 \<Rightarrow> initializer option \<Rightarrow> activation option \<Rightarrow> real \<Rightarrow>
   py_error + mlp_descriptor" where
  "mlp_add_layer d layer_pos lay_dims init_w_function init_a_function drop_prob =
     (if layer_pos < 0 \<or> layer_pos \<ge> number_hidden_layers d then Inr d
      else
        then_do (np_insert (items (dims d)) layer_pos lay_dims) (\<lambda>ds.
        then_do (np_insert (init_functions d) layer_pos init_w_function) (\<lambda>ws.
        then_do (np_insert (act_functions d) layer_pos init_a_function) (\<lambda>as.
        then_do (np_insert (dropout_probs d) layer_pos drop_prob) (\<lambda>ps.
        Inr (d\<lparr>dims := NdArray ds, init_functions := ws, act_functions := as,
               number_hidden_layers := number_hidden_layers d + 1,
               dropout_probs := ps\<rparr>))))))"

definition mlp_remove_layer :: "mlp_descriptor \<Rightarrow> int \<Rightarrow> py_error + mlp_descriptor" where
  "mlp_remove_layer d layer_pos =
     (if layer_pos \<le> 1 \<or> layer_pos > number_hidden_layers d then Inr d
      else
        then_do (np_delete (items (dims d)) layer_pos) (\<lambda>ds.
        then_do (np_delete (init_functions d) layer_pos) (\<lambda>ws.
        then_do (np_delete (act_functions d) layer_pos) (\<lambda>as.
        then_do (np_delete (dropout_probs d) layer_pos) (\<lambda>ps.
        Inr (d\<lparr>dims := NdArray ds, init_functions := ws, act_functions := as,
               dropout_probs := ps,
               number_hidden_layers := number_hidden_layers d - 1\<rparr>))))))"

text \<open>\<^verbatim>\<open>ref.index(x)\<close>: the first position of \<open>x\<close>, or a \<^verbatim>\<open>ValueError\<close>.\<close>

fun first_index :: "'a list \<Rightarrow> 'a \<Rightarrow> nat" where
  "first_index [] x = 0"
| "first_index (y # ys) x = (if y = x then 0 else Suc (first_index ys x))"

definition list_index :: "'a list \<Rightarrow> 'a \<Rightarrow> py_error + int" where
  "list_index ref x = (if x \<in> set ref then Inr (int (first_index ref x)) else Inl ValueError)"

text \<open>The loop \<^verbatim>\<open>for f in fs: aux.append(ref.index(f))\<close>.\<close>

fun index_each :: "'a list \<Rightarrow> 'a list \<Rightarrow> int list \<Rightarrow> py_error + int list" where
  "index_each ref [] aux = Inr aux"
| "index_each ref (f # fs) aux = then_do (list_index ref f) (\<lambda>k. index_each ref fs (aux @ [k]))"

text \<open>\<^verbatim>\<open>[-1] * k\<close>: empty when \<open>k\<close> is not positive.\<close>

definition padding :: "int \<Rightarrow> int list" where
  "padding k = replicate (nat k) (- 1)"

text \<open>
  Python's \<^verbatim>\<open>+\<close> on the code vector. Two lists are concatenated. With an array on either
  side numpy converts the other side to an array and adds elementwise in \<^verbatim>\<open>int64\<close>,
  broadcasting an operand of one element and raising on any other pair of lengths. The
  elements of an array are given as the signed numbers they are.
\<close>

definition add64 :: "int \<Rightarrow> int \<Rightarrow> int" where
  "add64 x y = sint (word_of_int x + word_of_int y :: int64)"

fun py_add :: "int pyseq \<Rightarrow> int pyseq \<Rightarrow> py_error + int pyseq" where
  "py_add (PyList xs) (PyList ys) = Inr (PyList (xs @ ys))"
| "py_add a b = then_do (np_binop add64 (items a) (items b)) (\<lambda>zs. Inr (NdArray zs))"

fun signed_items :: "int64 pyseq \<Rightarrow> int pyseq" where
  "signed_items (PyList xs) = PyList (map sint xs)"
| "signed_items (NdArray xs) = NdArray (map sint xs)"

text \<open>
  \<^verbatim>\<open>MLPDescriptor.codify_components\<close>. Each statement \<^verbatim>\<open>code = code + a + b\<close> of the
  source adds from the left.
\<close>

definition codify_components ::
  "mlp_descriptor \<Rightarrow> int \<Rightarrow> initializer option list \<Rightarrow> activation option list \<Rightarrow>
   py_error + int pyseq" where
  "codify_components d max_hidden_layers ref_list_init_functions ref_list_act_functions =
     (let max_total_layers = max_hidden_layers + 1;
          code = PyList [number_hidden_layers d]
      in then_do (py_add code (signed_items (dims d))) (\<lambda>code.
         then_do (py_add code
                    (PyList (padding (max_total_layers - int (length (items (dims d))))))) (\<lambda>code.
         then_do (index_each ref_list_init_functions (init_functions d) []) (\<lambda>aux_f.
         then_do (py_add code (PyList aux_f)) (\<lambda>code.
         then_do (py_add code (PyList (padding (max_total_layers - int (length aux_f))))) (\<lambda>code.
         then_do (index_each ref_list_act_functions (act_functions d) []) (\<lambda>aux_a.
         then_do (py_add code (PyList aux_a)) (\<lambda>code.
         py_add code (PyList (padding (max_total_layers - int (length aux_a))))))))))))"

section \<open>ConvDescriptor\<close>

text \<open>
  An entry of \<^verbatim>\<open>filters\<close> or \<^verbatim>\<open>strides\<close> of a \<^verbatim>\<open>ConvDescriptor\<close> has one of two
  forms in the source: \<^verbatim>\<open>random_init\<close> appends a pair of the convolution's triple and
  the companion pooling's triple (or \<^verbatim>\<open>None\<close>), while \<^verbatim>\<open>add_layer\<close> inserts one flat
  triple.
\<close>

datatype fentry = Flat "int64 list" | Paired "int64 list" "int64 list option"

record conv_descriptor = network_descriptor +
  layers :: "int list"
  filters :: "fentry list"
  strides :: "fentry list"
  shapes :: "int64 list list"

text \<open>
  \<^verbatim>\<open>compute_output(shape, 0, self.filters[lay], self.strides[lay])\<close> as
  \<^verbatim>\<open>reset_shapes\<close> calls it, on entries. For a paired entry, \<^verbatim>\<open>filter_size[:2]\<close> is the
  pair itself: \<^verbatim>\<open>np.array\<close> makes a 2 x 3 array of two triples, which does not broadcast
  against the two spatial sizes of the input, and fails on a triple paired with \<^verbatim>\<open>None\<close>;
  the call raises in both cases.
\<close>

fun compute_output_entry ::
  "int64 list \<Rightarrow> int \<Rightarrow> fentry \<Rightarrow> fentry \<Rightarrow> py_error + int64 list" where
  "compute_output_entry input_shape layer_type (Flat filter_size) (Flat stride) =
     compute_output input_shape layer_type filter_size stride"
| "compute_output_entry input_shape layer_type _ _ = Inl ValueError"

text \<open>The loop of \<^verbatim>\<open>ConvDescriptor.reset_shapes\<close> over \<^verbatim>\<open>range(number_hidden_layers)\<close>.\<close>

fun reset_loop ::
  "fentry list \<Rightarrow> fentry list \<Rightarrow> nat list \<Rightarrow> int64 list \<Rightarrow> int64 list list \<Rightarrow>
   py_error + int64 list list" where
  "reset_loop fs ss [] shape acc = Inr acc"
| "reset_loop fs ss (lay # lays) shape acc =
     then_do (py_index fs (int lay)) (\<lambda>f.
     then_do (py_index ss (int lay)) (\<lambda>s.
     then_do (compute_output_entry shape 0 f s) (\<lambda>shape.
     reset_loop fs ss lays shape (acc @ [shape]))))"

definition reset_shapes :: "conv_descriptor \<Rightarrow> py_error + conv_descriptor" where
  "reset_shapes d =
     then_do (reset_loop (filters d) (strides d) [0 ..< nat (number_hidden_layers d)]
                (input_dim d) []) (\<lambda>shs.
     Inr (d\<lparr>shapes := shs\<rparr>))"

text \<open>
  The guard \<^verbatim>\<open>self.shapes[-1][0] > 2 and self.shapes[-1][1] > 2\<close> of
  \<^verbatim>\<open>ConvDescriptor.add_layer\<close>.
\<close>

definition last_shape_roomy :: "int64 list list \<Rightarrow> py_error + bool" where
  "last_shape_roomy shs =
     then_do (py_index shs (- 1)) (\<lambda>sh.
     then_do (py_index sh 0) (\<lambda>h.
     if sint h > 2 then then_do (py_index sh 1) (\<lambda>w. Inr (sint w > 2)) else Inr False))"

text \<open>
  \<^verbatim>\<open>ConvDescriptor.add_layer(layer_pos, lay_type, lay_params)\<close>. The parameters are the
  tuple of stride, filter size, activation and initializer; \<open>channel\<close> is the draw
  \<^verbatim>\<open>np.random.randint(0, 65)\<close> of the convolutional branch. The result is the returned
  status and the descriptor as the call leaves it.
\<close>

definition conv_add_layer ::
  "conv_descriptor \<Rightarrow> int \<Rightarrow> int \<Rightarrow> int64 \<times> int64 \<times> activation option \<times> initializer option \<Rightarrow>
   int64 \<Rightarrow> py_error + int \<times> conv_descriptor" where
  "conv_add_layer d layer_pos lay_type lay_params channel =
     (case lay_params of (p0, p1, p2, p3) \<Rightarrow>
      let d = d\<lparr>layers := py_insert (layers d) layer_pos lay_type\<rparr>
      in then_do (last_shape_roomy (shapes d)) (\<lambda>roomy.
         if roomy then
           (let d = d\<lparr>number_hidden_layers := number_hidden_layers d + 1\<rparr>;
                d = (if lay_type < 2 then
                       d\<lparr>filters := py_insert (filters d) layer_pos (Flat [p1, p1, 1]),
                         act_functions := py_insert (act_functions d) layer_pos None,
                         init_functions := py_insert (init_functions d) layer_pos None,
                         strides := py_insert (strides d) layer_pos (Flat [p0, p0, 1])\<rparr>
                     else if lay_type = 2 then
                       d\<lparr>strides := py_insert (strides d) layer_pos (Flat [p0, p0, 1]),
                         filters := py_insert (filters d) layer_pos (Flat [p1, p1, channel]),
                         act_functions := py_insert (act_functions d) layer_pos p2,
                         init_functions := py_insert (init_functions d) layer_pos p3\<rparr>
                     else d)
            in then_do (reset_shapes d) (\<lambda>d. Inr (0, d)))
         else Inr (1, d)))"

definition conv_remove_layer :: "conv_descriptor \<Rightarrow> int \<Rightarrow> py_error + conv_descriptor" where
  "conv_remove_layer d layer_pos =
     then_do (py_pop (filters d) layer_pos) (\<lambda>fs.
     then_do (py_pop (act_functions d) layer_pos) (\<lambda>as.
     then_do (py_pop (init_functions d) layer_pos) (\<lambda>ws.
     then_do (py_pop (strides d) layer_pos) (\<lambda>ss.
     reset_shapes (d\<lparr>filters := fs, act_functions := as, init_functions := ws, strides := ss,
                      number_hidden_layers := number_hidden_layers d - 1\<rparr>)))))"

text \<open>
  \<^verbatim>\<open>ConvDescriptor.remove_random_layer\<close>; \<open>layer_pos\<close> is the draw
  \<^verbatim>\<open>np.random.randint(len(self.filters))\<close>, which raises on an empty sequence.
\<close>

definition conv_remove_random_layer ::
  "conv_descriptor \<Rightarrow> int \<Rightarrow> py_error + int \<times> conv_descriptor" where
  "conv_remove_random_layer d layer_pos =
     (if number_hidden_layers d > 1 then
        (if filters d = [] then Inl ValueError
         else then_do (conv_remove_layer d layer_pos) (\<lambda>d. Inr (0, d)))
      else Inr (- 1, d))"

text \<open>
  The rejection test \<^verbatim>\<open>shape[0] < 2 or shape[1] < 2 or np.prod(shape) < self.output_dim\<close>
  of \<^verbatim>\<open>ConvDescriptor.random_init\<close>. The last comparison has a truth value when the output
  dimension is one number; against a dimension of several components it is an array, whose
  truth value \<^verbatim>\<open>if\<close> refuses.
\<close>

definition too_small :: "int64 list \<Rightarrow> int64 list \<Rightarrow> py_error + bool" where
  "too_small shape out_dim =
     then_do (py_index shape 0) (\<lambda>h.
     if sint h < 2 then Inr True
     else then_do (py_index shape 1) (\<lambda>w.
          if sint w < 2 then Inr True
          else (case out_dim of
                  [v] \<Rightarrow> Inr (sint (prod_list shape) < sint v)
                | _ \<Rightarrow> Inl ValueError)))"

text \<open>The random draws of one iteration of \<^verbatim>\<open>ConvDescriptor.random_init\<close>.\<close>

record conv_draw =
  kind :: int
  conv_stride :: int
  conv_filter :: int
  conv_channel :: int
  pool_stride :: int
  pool_filter :: int
  pool_channel :: int
  init_draw :: "initializer option"
  act_draw :: "activation option"

text \<open>
  The \<^verbatim>\<open>while i < nlayers\<close> loop of \<^verbatim>\<open>ConvDescriptor.random_init\<close>.
  \<^verbatim>\<open>np.random.randint(low, high)\<close> raises unless \<open>low < high\<close> and \<open>high\<close> is at most
  \<open>2 ^ 63\<close>, so that every draw is a value of \<^verbatim>\<open>int64\<close>, which \<^verbatim>\<open>np.array\<close> stores.
\<close>

function conv_init_loop ::
  "(nat \<Rightarrow> conv_draw) \<Rightarrow> int \<Rightarrow> int \<Rightarrow> int \<Rightarrow> conv_descriptor \<Rightarrow> int64 list \<Rightarrow> int \<Rightarrow>
   py_error + conv_descriptor" where
  "conv_init_loop rnd nlayers max_stride max_filter d shape i =
     (if i < nlayers then
        (let r = rnd (nat i);
             d = d\<lparr>layers := layers d @ [kind r]\<rparr>;
             truncated = d\<lparr>number_hidden_layers := i, layers := butlast (layers d)\<rparr>
         in if max_stride \<le> 1 \<or> 2 ^ 63 < max_stride \<or> max_filter \<le> 2 \<or> 2 ^ 63 < max_filter
            then Inl ValueError
            else
              (let conv_strides = [of_int (conv_stride r), of_int (conv_stride r), 1];
                   conv_filters = [of_int (conv_filter r), of_int (conv_filter r),
                                   of_int (conv_channel r)]
               in then_do (compute_output shape 0 conv_filters conv_strides) (\<lambda>shape.
                  then_do (too_small shape (output_dim d)) (\<lambda>small.
                  if small then Inr truncated
                  else if last (layers d) \<noteq> 2 then
                    (let pool_strides = [of_int (pool_stride r), of_int (pool_stride r), 1];
                         pool_filters = [of_int (pool_filter r), of_int (pool_filter r),
                                         of_int (pool_channel r)]
                     in then_do (compute_output shape 0 pool_filters pool_strides) (\<lambda>shape.
                        then_do (too_small shape (output_dim d)) (\<lambda>small.
                        if small then Inr truncated
                        else conv_init_loop rnd nlayers max_stride max_filter
                               (d\<lparr>strides := strides d @ [Paired conv_strides (Some pool_strides)],
                                  filters := filters d @ [Paired conv_filters (Some pool_filters)],
                                  shapes := shapes d @ [shape],
                                  init_functions := init_functions d @ [init_draw r],
                                  act_functions := act_functions d @ [act_draw r]\<rparr>)
                               shape (i + 1))))
                  else conv_init_loop rnd nlayers max_stride max_filter
                         (d\<lparr>strides := strides d @ [Paired conv_strides None],
                            filters := filters d @ [Paired conv_filters None],
                            shapes := shapes d @ [shape],
                            init_functions := init_functions d @ [init_draw r],
                            act_functions := act_functions d @ [act_draw r]\<rparr>)
                         shape (i + 1)))))
      else Inr d)"
  by pat_completeness auto
termination
  by (relation "measure (\<lambda>(rnd, nlayers, max_stride, max_filter, d, shape, i). nat (nlayers - i))")
     auto

text \<open>
  \<^verbatim>\<open>ConvDescriptor.random_init\<close>. \<open>first_draw\<close> is \<^verbatim>\<open>np.random.randint(nlayers)\<close>,
  \<open>rnd\<close> gives the draws of each iteration and \<open>bn_draw\<close> the batch-norm coin.
\<close>

definition conv_random_init ::
  "conv_descriptor \<Rightarrow> int64 list \<Rightarrow> int64 list \<Rightarrow> int \<Rightarrow> int \<Rightarrow> int \<Rightarrow> bool option \<Rightarrow>
   int \<Rightarrow> (nat \<Rightarrow> conv_draw) \<Rightarrow> bool \<Rightarrow> py_error + conv_descriptor" where
  "conv_random_init d input_size output_size nlayers max_stride max_filter no_batch
     first_draw rnd bn_draw =
     (if nlayers \<le> 0 then Inl ValueError
      else
        (let d = d\<lparr>input_dim := input_size, output_dim := output_size,
                   number_hidden_layers := first_draw + 1,
                   init_functions := [], act_functions := [],
                   layers := [], strides := [], filters := []\<rparr>
         in then_do (conv_init_loop rnd nlayers max_stride max_filter d (input_dim d) 0) (\<lambda>d.
            Inr (if no_batch = Some False then d\<lparr>batch_norm := bn_draw\<rparr> else d))))"

section \<open>TConvDescriptor\<close>

text \<open>
  \<^verbatim>\<open>class TConvDescriptor\<close>: one triple per layer in \<^verbatim>\<open>filters\<close> and
  \<^verbatim>\<open>strides\<close>, and cached shapes of the form \<open>[-1, height, width, channels]\<close>.
\<close>

record tconv_descriptor = network_descriptor +
  t_filters :: "int64 list list"
  t_strides :: "int64 list list"
  output_shapes :: "int64 list list"

text \<open>The loop of \<^verbatim>\<open>TConvDescriptor.reset_shapes\<close>.\<close>

fun t_reset_loop ::
  "int64 list list \<Rightarrow> int64 list list \<Rightarrow> nat list \<Rightarrow> int64 list \<Rightarrow> int64 list list \<Rightarrow>
   py_error + int64 list list" where
  "t_reset_loop fs ss [] shape acc = Inr acc"
| "t_reset_loop fs ss (lay # lays) shape acc =
     then_do (py_index fs (int lay)) (\<lambda>f.
     then_do (py_index ss (int lay)) (\<lambda>s.
     then_do (compute_output shape 4 f s) (\<lambda>shape.
     then_do (py_index f 2) (\<lambda>c.
     t_reset_loop fs ss lays shape (acc @ [[- 1] @ shape @ [c]])))))"

definition t_reset_shapes :: "tconv_descriptor \<Rightarrow> py_error + tconv_descriptor" where
  "t_reset_shapes d =
     then_do (t_reset_loop (t_filters d) (t_strides d) [0 ..< nat (number_hidden_layers d)]
                (input_dim d) []) (\<lambda>shs.
     Inr (d\<lparr>output_shapes := shs\<rparr>))"


definition tconv_remove_layer :: "tconv_descriptor \<Rightarrow> int \<Rightarrow> py_error + tconv_descriptor" where
  "tconv_remove_layer d layer_pos =
     then_do (py_pop (t_filters d) layer_pos) (\<lambda>fs.
     then_do (py_pop (act_functions d) layer_pos) (\<lambda>as.
     then_do (py_pop (init_functions d) layer_pos) (\<lambda>ws.
     then_do (py_pop (t_strides d) layer_pos) (\<lambda>ss.
     t_reset_shapes (d\<lparr>t_filters := fs, act_functions := as, init_functions := ws,
                        t_strides := ss,
                        number_hidden_layers := number_hidden_layers d - 1\<rparr>)))))"

text \<open>
  The test of \<^verbatim>\<open>TConvDescriptor.remove_random_layer\<close> for one candidate position:
  \<^verbatim>\<open>self.number_hidden_layers > 1 and (self.output_shapes[-1][1] - 1) /
  self.strides[layer_pos][0] - self.filters[layer_pos][0] > self.output_dim[0]\<close>.
  The operands are \<^verbatim>\<open>int64\<close> values and the true division is that of numpy, which
  raises nothing: by a zero stride it gives an infinity of the sign of the dividend, that
  exceeds the target exactly when it is positive, or not-a-number, that exceeds nothing. By
  any other stride the quotient is taken over the reals; the rounding of numpy to
  \<^verbatim>\<open>float64\<close> is left out.
\<close>

definition deletable :: "tconv_descriptor \<Rightarrow> int \<Rightarrow> py_error + bool" where
  "deletable d layer_pos =
     (if number_hidden_layers d > 1 then
        then_do (py_index (output_shapes d) (- 1)) (\<lambda>sh.
        then_do (py_index sh 1) (\<lambda>h.
        then_do (py_index (t_strides d) layer_pos) (\<lambda>s.
        then_do (py_index s 0) (\<lambda>s0.
        then_do (py_index (t_filters d) layer_pos) (\<lambda>f.
        then_do (py_index f 0) (\<lambda>f0.
        then_do (py_index (output_dim d) 0) (\<lambda>o0.
        Inr (if s0 = 0 then 0 < sint (h - 1)
             else real_of_int (sint (h - 1)) / real_of_int (sint s0) - real_of_int (sint f0)
                    > real_of_int (sint o0)))))))))
      else Inr False)"

text \<open>
  \<^verbatim>\<open>TConvDescriptor.remove_random_layer\<close>: the loop over \<open>candidates\<close>, the positions
  in the random order that \<^verbatim>\<open>np.random.choice\<close> without replacement drew.
\<close>

fun tconv_remove_random_layer ::
  "tconv_descriptor \<Rightarrow> int list \<Rightarrow> py_error + int \<times> tconv_descriptor" where
  "tconv_remove_random_layer d [] = Inr (- 1, d)"
| "tconv_remove_random_layer d (layer_pos # candidates) =
     then_do (deletable d layer_pos) (\<lambda>ok.
     if ok then then_do (tconv_remove_layer d layer_pos) (\<lambda>d. Inr (0, d))
     else tconv_remove_random_layer d candidates)"

text \<open>The overrides of \<^verbatim>\<open>TConvDescriptor\<close>, which assign without a test of the position.\<close>

definition tconv_change_activation ::
  "tconv_descriptor \<Rightarrow> int \<Rightarrow> activation option \<Rightarrow> py_error + tconv_descriptor" where
  "tconv_change_activation d layer_pos new_act_fn =
     then_do (py_setitem (act_functions d) layer_pos new_act_fn) (\<lambda>fs.
     Inr (d\<lparr>act_functions := fs\<rparr>))"

definition tconv_change_weight_init ::
  "tconv_descriptor \<Rightarrow> int \<Rightarrow> initializer option \<Rightarrow> py_error + tconv_descriptor" where
  "tconv_change_weight_init d layer_pos new_weight_fn =
     then_do (py_setitem (init_functions d) layer_pos new_weight_fn) (\<lambda>fs.
     Inr (d\<lparr>init_functions := fs\<rparr>))"

text \<open>The random draws of one attempt of \<^verbatim>\<open>TConvDescriptor.random_init\<close>.\<close>

record tconv_draw =
  t_stride :: int
  t_filter :: int
  t_channel :: int
  t_init :: "initializer option"
  t_act :: "activation option"

text \<open>
  The exit test \<^verbatim>\<open>shape[1] >= self.output_dim[0] and shape[2] >= self.output_dim[1]\<close>.
\<close>

definition reached :: "int64 list \<Rightarrow> int64 list \<Rightarrow> py_error + bool" where
  "reached shape out_dim =
     then_do (py_index shape 1) (\<lambda>h.
     then_do (py_index out_dim 0) (\<lambda>o0.
     if sint h \<ge> sint o0 then
       then_do (py_index shape 2) (\<lambda>w.
       then_do (py_index out_dim 1) (\<lambda>o1. Inr (sint w \<ge> sint o1)))
     else Inr False))"

text \<open>
  The loop \<^verbatim>\<open>for i in range(300)\<close> of \<^verbatim>\<open>TConvDescriptor.random_init\<close>. The draws
  are stored in arrays, so the sizes are computed in \<^verbatim>\<open>int64\<close>. The flag of
  the result tells whether the loop was left by its \<^verbatim>\<open>break\<close>. On that exit the channel
  of the last filter and of the last cached shape, which is the list object \<^verbatim>\<open>shape\<close>
  itself, become the channel count of the output dimension.
\<close>

function tconv_init_loop ::
  "(nat \<Rightarrow> tconv_draw) \<Rightarrow> int \<Rightarrow> int \<Rightarrow> tconv_descriptor \<Rightarrow> int64 list \<Rightarrow> nat \<Rightarrow>
   py_error + bool \<times> tconv_descriptor" where
  "tconv_init_loop rnd max_stride max_filter d shape i =
     (if i < 300 then
        (if max_stride \<le> 1 \<or> 2 ^ 63 < max_stride \<or> max_filter \<le> 2 \<or> 2 ^ 63 < max_filter
         then Inl ValueError
         else
           (let r = rnd i;
                stride = [of_int (t_stride r), of_int (t_stride r), 1];
                filter = [of_int (t_filter r), of_int (t_filter r), of_int (t_channel r)];
                d = d\<lparr>t_strides := t_strides d @ [stride], t_filters := t_filters d @ [filter]\<rparr>
            in then_do (compute_output (drop 1 shape) 4 filter stride) (\<lambda>out.
               let shape = [- 1] @ out @ [of_int (t_channel r)];
                   d = d\<lparr>output_shapes := output_shapes d @ [shape],
                         init_functions := init_functions d @ [t_init r],
                         act_functions := act_functions d @ [t_act r]\<rparr>
               in then_do (reached shape (output_dim d)) (\<lambda>enough.
                  if enough then
                    then_do (py_index (output_dim d) 2) (\<lambda>o2.
                    then_do (py_setitem filter 2 o2) (\<lambda>filter.
                    then_do (py_setitem shape (- 1) o2) (\<lambda>shape.
                    Inr (True,
                         d\<lparr>t_filters := butlast (t_filters d) @ [filter],
                           output_shapes := butlast (output_shapes d) @ [shape],
                           number_hidden_layers := int i + 1\<rparr>))))
                  else tconv_init_loop rnd max_stride max_filter d shape (i + 1)))))
      else Inr (False, d))"
  by pat_completeness auto
termination
  by (relation "measure (\<lambda>(rnd, max_stride, max_filter, d, shape, i). 300 - i)") auto

text \<open>
  \<^verbatim>\<open>TConvDescriptor.random_init\<close>, with the draws of each attempt in \<open>rnd\<close> and the
  batch-norm coin in \<open>bn_draw\<close>.
\<close>

definition tconv_random_init ::
  "tconv_descriptor \<Rightarrow> int64 list \<Rightarrow> int64 list \<Rightarrow> int \<Rightarrow> int \<Rightarrow> bool option \<Rightarrow>
   (nat \<Rightarrow> tconv_draw) \<Rightarrow> bool \<Rightarrow> py_error + tconv_descriptor" where
  "tconv_random_init d input_size output_size max_stride max_filter no_batch rnd bn_draw =
     (let d = d\<lparr>input_dim := input_size, output_dim := output_size,
                t_strides := [], t_filters := [],
                init_functions := [], act_functions := []\<rparr>
      in then_do (tconv_init_loop rnd max_stride max_filter d ([- 1] @ input_dim d) 0)
           (\<lambda>(left_by_break, d).
              Inr (if no_batch = Some False then d\<lparr>batch_norm := bn_draw\<rparr> else d)))"

section \<open>Sample descriptors\<close>

text \<open>Concrete descriptors on which the results below are instantiated.\<close>

definition mlp_example :: mlp_descriptor where
  "mlp_example =
     \<lparr>number_hidden_layers = 3, input_dim = [784], output_dim = [10],
      init_functions = [Some GlorotNormal, Some RandomUniform, Some RandomNormal,
                        Some GlorotUniform],
      act_functions = [None, Some Relu, Some Tanh, Some Sigmoid],
      batch_norm = False, dropout = True, dropout_probs = [1 / 2, 1 / 4, 1 / 2, 1 / 4],
      dims = PyList [10, 20, 30]\<rparr>"

definition conv_example :: conv_descriptor where
  "conv_example =
     \<lparr>number_hidden_layers = 2, input_dim = [28, 28, 3], output_dim = [20],
      init_functions = [Some GlorotNormal, None],
      act_functions = [Some Relu, None],
      batch_norm = False, dropout = False, dropout_probs = [],
      layers = [2, 0],
      filters = [Flat [3, 3, 8], Flat [3, 3, 16]],
      strides = [Flat [1, 1, 1], Flat [1, 1, 1]],
      shapes = [[26, 26, 8], [24, 24, 16]]\<rparr>"

text \<open>
  A descriptor as the constructor leaves it, the sequences that \<^verbatim>\<open>random_init\<close>
  overwrites left empty, and the random draws of a convolution without companion pooling,
  of stride 1, filter size 2 and 3 channels, the only draws there are under the bounds
  \<open>max_stride = 2\<close> and \<open>max_filter = 3\<close> up to kind and channel count.
\<close>

definition conv_fresh :: conv_descriptor where
  "conv_fresh =
     \<lparr>number_hidden_layers = 2, input_dim = [28, 28, 3], output_dim = [7, 7, 1],
      init_functions = [], act_functions = [],
      batch_norm = False, dropout = False, dropout_probs = [],
      layers = [0, 1],
      filters = [Flat [3, 3, 2], Flat [3, 3, 2]],
      strides = [Flat [1, 1, 1], Flat [1, 1, 1]],
      shapes = []\<rparr>"

definition plain_conv_draw :: conv_draw where
  "plain_conv_draw =
     \<lparr>kind = 2, conv_stride = 1, conv_filter = 2, conv_channel = 3,
      pool_stride = 1, pool_filter = 2, pool_channel = 3,
      init_draw = Some RandomUniform, act_draw = Some Relu\<rparr>"

text \<open>
  The genome that \<^verbatim>\<open>random_init\<close> builds from a 3 by 3 input with these draws; its last
  cached shape is 2 by 2.
\<close>

definition conv_small :: conv_descriptor where
  "conv_small =
     \<lparr>number_hidden_layers = 1, input_dim = [3, 3, 3], output_dim = [4],
      init_functions = [Some RandomUniform],
      act_functions = [Some Relu],
      batch_norm = False, dropout = False, dropout_probs = [],
      layers = [2],
      filters = [Paired [2, 2, 3] None],
      strides = [Paired [1, 1, 1] None],
      shapes = [[2, 2, 3]]\<rparr>"

definition tconv_example :: tconv_descriptor where
  "tconv_example =
     \<lparr>number_hidden_layers = 2, input_dim = [7, 7, 50], output_dim = [28, 28, 3],
      init_functions = [Some GlorotNormal, Some RandomUniform],
      act_functions = [Some Relu, Some Tanh],
      batch_norm = False, dropout = False, dropout_probs = [],
      t_filters = [[3, 3, 16], [3, 3, 3]], t_strides = [[2, 2, 1], [2, 2, 1]],
      output_shapes = [[- 1, 15, 15, 16], [- 1, 31, 31, 3]]\<rparr>"

text \<open>
  A transposed-convolutional descriptor of three layers that overshoots its target: its
  cached shapes grow from the 7 by 7 input to 8, 23 and 68.
\<close>

definition tconv_large :: tconv_descriptor where
  "tconv_large =
     \<lparr>number_hidden_layers = 3, input_dim = [7, 7, 50], output_dim = [28, 28, 3],
      init_functions = [Some GlorotNormal, Some RandomUniform, Some GlorotUniform],
      act_functions = [Some Relu, Some Tanh, None],
      batch_norm = False, dropout = False, dropout_probs = [],
      t_filters = [[2, 2, 16], [2, 2, 8], [2, 2, 3]],
      t_strides = [[1, 1, 1], [3, 3, 1], [3, 3, 1]],
      output_shapes = [[- 1, 8, 8, 16], [- 1, 23, 23, 8], [- 1, 68, 68, 3]]\<rparr>"

text \<open>
  A transposed-convolutional descriptor as the constructor leaves it, and the smallest draws
  there are: stride 1 and filter size 2.
\<close>

definition tconv_fresh :: tconv_descriptor where
  "tconv_fresh =
     \<lparr>number_hidden_layers = 2, input_dim = [7, 7, 50], output_dim = [28, 28, 3],
      init_functions = [], act_functions = [],
      batch_norm = False, dropout = False, dropout_probs = [],
      t_filters = [[3, 3, 2], [3, 3, 2]], t_strides = [[1, 1, 1], [1, 1, 1]],
      output_shapes = []\<rparr>"

definition slow_tconv_draw :: tconv_draw where
  "slow_tconv_draw =
     \<lparr>t_stride = 1, t_filter = 2, t_channel = 40,
      t_init = Some RandomUniform, t_act = Some Relu\<rparr>"

text \<open>
  A sequence of draws under the stride bound \<open>2 ^ 62\<close>: the stride \<open>2 ^ 61\<close> at the first
  attempt and the stride 1 at every later one.
\<close>

definition big_tconv_draw :: tconv_draw where
  "big_tconv_draw =
     \<lparr>t_stride = 2 ^ 61, t_filter = 2, t_channel = 40,
      t_init = Some RandomUniform, t_act = Some Relu\<rparr>"

definition wrap_draws :: "nat \<Rightarrow> tconv_draw" where
  "wrap_draws j = (if j = 0 then big_tconv_draw else slow_tconv_draw)"

text \<open>The draws that \<^verbatim>\<open>np.random.randint\<close> can return under the bounds passed.\<close>

definition tconv_draw_ok :: "int \<Rightarrow> int \<Rightarrow> tconv_draw \<Rightarrow> bool" where
  "tconv_draw_ok max_stride max_filter r \<longleftrightarrow>
     1 \<le> t_stride r \<and> t_stride r < max_stride \<and>
     2 \<le> t_filter r \<and> t_filter r < max_filter \<and>
     3 \<le> t_channel r \<and> t_channel r < 65"

section \<open>Consistent descriptors\<close>

text \<open>
  The states in which the shape recomputation runs through: the parallel sequences have one
  entry per layer, every entry is a flat triple, and the input has its two spatial sizes.
\<close>

fun flat_of_size :: "nat \<Rightarrow> fentry \<Rightarrow> bool" where
  "flat_of_size n (Flat xs) = (n \<le> length xs)"
| "flat_of_size n (Paired c p) = False"

definition conv_consistent :: "conv_descriptor \<Rightarrow> bool" where
  "conv_consistent d \<longleftrightarrow>
     2 \<le> length (input_dim d) \<and>
     number_hidden_layers d = int (length (filters d)) \<and>
     length (strides d) = length (filters d) \<and>
     length (act_functions d) = length (filters d) \<and>
     length (init_functions d) = length (filters d) \<and>
     list_all (flat_of_size 3) (filters d) \<and>
     list_all (flat_of_size 2) (strides d)"

definition tconv_consistent :: "tconv_descriptor \<Rightarrow> bool" where
  "tconv_consistent d \<longleftrightarrow>
     2 \<le> length (input_dim d) \<and>
     number_hidden_layers d = int (length (t_filters d)) \<and>
     length (t_strides d) = length (t_filters d) \<and>
     length (act_functions d) = length (t_filters d) \<and>
     length (init_functions d) = length (t_filters d) \<and>
     list_all (\<lambda>f. 3 \<le> length f) (t_filters d) \<and>
     list_all (\<lambda>s. 2 \<le> length s) (t_strides d)"

section \<open>Properties of the shape arithmetic\<close>

lemma py_index_0: "py_index (x # xs) 0 = Inr x"
  by (simp add: py_index_def norm_index_def)

lemma py_index_1: "py_index (x # y # xs) 1 = Inr y"
  by (simp add: py_index_def norm_index_def)

lemma py_index_2: "py_index (x # y # z # xs) 2 = Inr z"
  by (simp add: py_index_def norm_index_def)

lemma compute_output_contractive:
  "layer_type < 3 \<Longrightarrow>
   compute_output (h # w # ri) layer_type (fh # fw # fc # rf) (sh # sw # rs) =
     Inr [max64 (floordiv64 (h - fh + 1) sh) 1, max64 (floordiv64 (w - fw + 1) sw) 1, fc]"
  by (simp add: compute_output_def np_binop_def py_index_0 py_index_1 py_index_2)

lemma compute_output_expansive:
  "\<not> layer_type < 3 \<Longrightarrow>
   compute_output (h # w # ri) layer_type (fh # fw # rf) (sh # sw # rs) =
     Inr [(h - 1) * sh + fh, (w - 1) * sw + fw]"
  by (simp add: compute_output_def py_index_0 py_index_1)

text \<open>Reading the wrapped arithmetic as arithmetic of integers, where nothing wraps.\<close>

lemma sint_of_int64: "in64 k \<Longrightarrow> sint (word_of_int k :: int64) = k"
  by (simp add: in64_def sint_sbintrunc' signed_take_bit_int_eq_self)

lemma in64_sint: "in64 (sint (x :: int64))"
  using sint_ge [of x] sint_lt [of x] by (simp add: in64_def)

lemma sint_contractive:
  "in64 (sint h - sint f + 1) \<Longrightarrow> sint (h - f + 1 :: int64) = sint h - sint f + 1"
proof -
  have "(h - f + 1 :: int64) = word_of_int (sint h - sint f + 1)" by simp
  then show "in64 (sint h - sint f + 1) \<Longrightarrow> sint (h - f + 1 :: int64) = sint h - sint f + 1"
    by (simp only: sint_of_int64)
qed

lemma sint_expansive:
  "in64 ((sint h - 1) * sint s + sint f) \<Longrightarrow>
   sint ((h - 1) * s + f :: int64) = (sint h - 1) * sint s + sint f"
proof -
  have "((h - 1) * s + f :: int64) = word_of_int ((sint h - 1) * sint s + sint f)" by simp
  then show "in64 ((sint h - 1) * sint s + sint f) \<Longrightarrow>
      sint ((h - 1) * s + f :: int64) = (sint h - 1) * sint s + sint f"
    by (simp only: sint_of_int64)
qed

lemma in64_div: "in64 a \<Longrightarrow> 0 < b \<Longrightarrow> in64 (a div b)"
proof -
  assume a: "in64 a" and b: "0 < b"
  show "in64 (a div b)"
  proof (cases "0 \<le> a")
    case True
    with b have "a div b \<le> a div 1" by (intro zdiv_mono2) simp_all
    moreover from True b have "0 \<le> a div b" by (simp add: pos_imp_zdiv_nonneg_iff)
    ultimately show ?thesis using a by (simp add: in64_def)
  next
    case False
    with b have "a div 1 \<le> a div b" by (intro zdiv_mono2_neg) simp_all
    moreover from False b have "a div b < 0" by (simp add: div_neg_pos_less0)
    ultimately show ?thesis using a by (simp add: in64_def)
  qed
qed

lemma sint_floordiv64: "0 < sint s \<Longrightarrow> sint (floordiv64 a s) = sint a div sint s"
  by (simp add: floordiv64_def sint_of_int64 in64_div in64_sint del: of_int_div)

lemma sint_max64_1: "sint (max64 a 1) = max 1 (sint a)"
  by (simp add: max64_def max_def)

text \<open>
  Claim C6, as amended. Take an input shape \<open>(h, w, c)\<close>, a filter \<open>(fh, fw, fc)\<close> and a
  stride \<open>(sh, sw, sc)\<close> of \<^verbatim>\<open>int64\<close> values with positive spatial strides. For a
  contractive kind (a layer type below 3: pooling or convolution), when
  \<open>input - filter + 1\<close> is in the range of \<^verbatim>\<open>int64\<close> in both dimensions,
  \<^verbatim>\<open>compute_output\<close> yields \<open>max(1, floor((input - filter + 1) / stride))\<close> in each
  spatial dimension, the floor being that of the real quotient, and the filter's channel
  parameter as channel count. For the expansive kind (transposed convolution), when
  \<open>(input - 1) * stride + filter\<close> is in the range of \<^verbatim>\<open>int64\<close> in both dimensions,
  it yields that number in each spatial dimension. With stride 1 and filter size 1 both
  kinds return the spatial shape of the input, an input shape being a tuple of positive
  integers.
\<close>

theorem compute_output_formula:
  assumes "0 < sint sh" and "0 < sint sw"
  shows "(layer_type < 3 \<and> in64 (sint h - sint fh + 1) \<and> in64 (sint w - sint fw + 1) \<longrightarrow>
           (\<exists>a b. compute_output [h, w, c] layer_type [fh, fw, fc] [sh, sw, sc] = Inr [a, b, fc] \<and>
              sint a = max 1 \<lfloor>real_of_int (sint h - sint fh + 1) / real_of_int (sint sh)\<rfloor> \<and>
              sint b = max 1 \<lfloor>real_of_int (sint w - sint fw + 1) / real_of_int (sint sw)\<rfloor>)) \<and>
         (3 \<le> layer_type \<and> in64 ((sint h - 1) * sint sh + sint fh) \<and>
          in64 ((sint w - 1) * sint sw + sint fw) \<longrightarrow>
           (\<exists>a b. compute_output [h, w, c] layer_type [fh, fw, fc] [sh, sw, sc] = Inr [a, b] \<and>
              sint a = (sint h - 1) * sint sh + sint fh \<and>
              sint b = (sint w - 1) * sint sw + sint fw)) \<and>
         (layer_type < 3 \<and> 1 \<le> sint h \<and> 1 \<le> sint w \<longrightarrow>
           compute_output [h, w, c] layer_type [1, 1, fc] [1, 1, 1] = Inr [h, w, fc]) \<and>
         (3 \<le> layer_type \<longrightarrow>
           compute_output [h, w, c] layer_type [1, 1, fc] [1, 1, 1] = Inr [h, w])"
proof (intro conjI impI)
  assume h: "layer_type < 3 \<and> in64 (sint h - sint fh + 1) \<and> in64 (sint w - sint fw + 1)"
  let ?a = "max64 (floordiv64 (h - fh + 1) sh) 1" and ?b = "max64 (floordiv64 (w - fw + 1) sw) 1"
  from h have "compute_output [h, w, c] layer_type [fh, fw, fc] [sh, sw, sc] = Inr [?a, ?b, fc]"
    by (simp add: compute_output_contractive)
  moreover from h assms(1)
  have "sint ?a = max 1 \<lfloor>real_of_int (sint h - sint fh + 1) / real_of_int (sint sh)\<rfloor>"
    unfolding floor_divide_of_int_eq
    by (simp add: sint_max64_1 sint_floordiv64 sint_contractive)
  moreover from h assms(2)
  have "sint ?b = max 1 \<lfloor>real_of_int (sint w - sint fw + 1) / real_of_int (sint sw)\<rfloor>"
    unfolding floor_divide_of_int_eq
    by (simp add: sint_max64_1 sint_floordiv64 sint_contractive)
  ultimately show "\<exists>a b. compute_output [h, w, c] layer_type [fh, fw, fc] [sh, sw, sc] =
        Inr [a, b, fc] \<and>
      sint a = max 1 \<lfloor>real_of_int (sint h - sint fh + 1) / real_of_int (sint sh)\<rfloor> \<and>
      sint b = max 1 \<lfloor>real_of_int (sint w - sint fw + 1) / real_of_int (sint sw)\<rfloor>"
    by blast
next
  assume h: "3 \<le> layer_type \<and> in64 ((sint h - 1) * sint sh + sint fh) \<and>
          in64 ((sint w - 1) * sint sw + sint fw)"
  then have "compute_output [h, w, c] layer_type [fh, fw, fc] [sh, sw, sc] =
      Inr [(h - 1) * sh + fh, (w - 1) * sw + fw]"
    by (simp add: compute_output_expansive)
  with h show "\<exists>a b. compute_output [h, w, c] layer_type [fh, fw, fc] [sh, sw, sc] = Inr [a, b] \<and>
              sint a = (sint h - 1) * sint sh + sint fh \<and>
              sint b = (sint w - 1) * sint sw + sint fw"
    by (simp add: sint_expansive)
next
  assume h: "layer_type < 3 \<and> 1 \<le> sint h \<and> 1 \<le> sint w"
  have "floordiv64 h 1 = h" "floordiv64 w 1 = w" by (simp_all add: floordiv64_def)
  moreover from h have "max64 h 1 = h" "max64 w 1 = w"
    by (auto simp add: max64_def intro: signed_word_eqI)
  ultimately show "compute_output [h, w, c] layer_type [1, 1, fc] [1, 1, 1] = Inr [h, w, fc]"
    using h by (simp add: compute_output_contractive)
next
  assume "3 \<le> layer_type"
  then show "compute_output [h, w, c] layer_type [1, 1, fc] [1, 1, 1] = Inr [h, w]"
    by (simp add: compute_output_expansive)
qed

lemma sint_eq_numeral: "sint (a :: int64) = k \<Longrightarrow> in64 k \<Longrightarrow> a = word_of_int k"
  by (auto intro: signed_word_eqI simp add: sint_of_int64)

theorem compute_output_formula_witness:
  "0 < sint (1 :: int64) \<and> 0 < sint (2 :: int64) \<and>
   compute_output [28, 28, 3] 0 [3, 3, 8] [1, 1, 1] = Inr [26, 26, 8] \<and>
   compute_output [7, 7, 50] 4 [3, 3, 8] [2, 2, 1] = Inr [15, 15] \<and>
   compute_output [28, 28, 3] 0 [1, 1, 8] [1, 1, 1] = Inr [28, 28, 8] \<and>
   compute_output [28, 28, 3] 4 [1, 1, 8] [1, 1, 1] = Inr [28, 28]"
proof -
  have one: "0 < sint (1 :: int64)" and two: "0 < sint (2 :: int64)" by simp_all
  from compute_output_formula [OF one one, where layer_type = 0 and h = 28 and w = 28 and c = 3
      and fh = 3 and fw = 3 and fc = 8 and sc = 1]
  obtain a b where "compute_output [28, 28, 3] 0 [3, 3, 8] [1, 1, 1] = Inr [a, b, 8]"
    "sint a = 26" "sint b = 26"
    by (auto simp add: in64_def)
  then have c1: "compute_output [28, 28, 3] 0 [3, 3, 8] [1, 1, 1] = Inr [26, 26, 8]"
    using sint_eq_numeral [of a 26] sint_eq_numeral [of b 26] by (simp add: in64_def)
  from compute_output_formula [OF two two, where layer_type = 4 and h = 7 and w = 7 and c = 50
      and fh = 3 and fw = 3 and fc = 8 and sc = 1]
  obtain a b where "compute_output [7, 7, 50] 4 [3, 3, 8] [2, 2, 1] = Inr [a, b]"
    "sint a = 15" "sint b = 15"
    by (auto simp add: in64_def)
  then have c2: "compute_output [7, 7, 50] 4 [3, 3, 8] [2, 2, 1] = Inr [15, 15]"
    using sint_eq_numeral [of a 15] sint_eq_numeral [of b 15] by (simp add: in64_def)
  from compute_output_formula [OF one one, where layer_type = 0 and h = 28 and w = 28 and c = 3
      and fc = 8]
  have c3: "compute_output [28, 28, 3] 0 [1, 1, 8] [1, 1, 1] = Inr [28, 28, 8]" by simp
  from compute_output_formula [OF one one, where layer_type = 4 and h = 28 and w = 28 and c = 3
      and fc = 8]
  have c4: "compute_output [28, 28, 3] 4 [1, 1, 8] [1, 1, 1] = Inr [28, 28]" by simp
  from one two c1 c2 c3 c4 show ?thesis by blast
qed

text \<open>
  The claim as stated fails where the arithmetic leaves the range of \<^verbatim>\<open>int64\<close>. For the
  input size \<open>2 ^ 63 - 1\<close>, the filter size 0 and the stride 1 the contractive formula gives
  \<open>2 ^ 63\<close>, and the code the size 1, the sum having wrapped to \<open>- 2 ^ 63\<close>. For the input
  size \<open>2 ^ 62\<close>, the stride 4 and the filter size 2 the expansive formula gives
  \<open>2 ^ 64 - 2\<close>, and the code \<open>-2\<close>.
\<close>

theorem compute_output_wraps_counterexample:
  "0 < sint (1 :: int64) \<and>
   compute_output [0x7FFFFFFFFFFFFFFF, 0x7FFFFFFFFFFFFFFF, 3] 0 [0, 0, 8] [1, 1, 1] = Inr [1, 1, 8] \<and>
   max 1 \<lfloor>real_of_int (sint (0x7FFFFFFFFFFFFFFF :: int64) - sint (0 :: int64) + 1)
            / real_of_int (sint (1 :: int64))\<rfloor> \<noteq> sint (1 :: int64) \<and>
   0 < sint (4 :: int64) \<and>
   compute_output [0x4000000000000000, 0x4000000000000000, 3] 4 [2, 2, 8] [4, 4, 1] =
     Inr [- 2, - 2] \<and>
   (sint (0x4000000000000000 :: int64) - 1) * sint (4 :: int64) + sint (2 :: int64)
     \<noteq> sint (- 2 :: int64)"
  by (simp add: compute_output_contractive compute_output_expansive floordiv64_def max64_def)

section \<open>Properties of the MLP codification\<close>

lemma first_index_spec:
  "x \<in> set ref \<Longrightarrow> first_index ref x < length ref \<and> ref ! first_index ref x = x \<and>
     (\<forall>k < first_index ref x. ref ! k \<noteq> x)"
proof (induction ref)
  case Nil
  then show ?case by simp
next
  case (Cons y ys)
  show ?case
  proof (cases "y = x")
    case True
    then show ?thesis by simp
  next
    case False
    with Cons have "first_index ys x < length ys \<and> ys ! first_index ys x = x \<and>
       (\<forall>k < first_index ys x. ys ! k \<noteq> x)" by simp
    with False show ?thesis by (auto simp: less_Suc_eq_0_disj)
  qed
qed

lemma index_each_in_catalog:
  "set fs \<subseteq> set ref \<Longrightarrow>
   index_each ref fs aux = Inr (aux @ map (\<lambda>f. int (first_index ref f)) fs)"
  by (induction fs arbitrary: aux) (simp_all add: list_index_def)

text \<open>
  While \<^verbatim>\<open>self.dims\<close> is the list that \<^verbatim>\<open>random_init\<close> built, the code vector is the
  layer count followed by three blocks of \<open>max_layers + 1\<close> slots each, filled up with
  \<open>-1\<close>.
\<close>

lemma codify_components_on_list:
  assumes "number_hidden_layers d \<le> max_layers"
    and "dims d = PyList ws"
    and "int (length ws) = number_hidden_layers d"
    and "int (length (init_functions d)) = number_hidden_layers d + 1"
    and "int (length (act_functions d)) = number_hidden_layers d + 1"
    and "set (init_functions d) \<subseteq> set init_catalog"
    and "set (act_functions d) \<subseteq> set act_catalog"
  shows "\<exists>widths inits acts.
           codify_components d max_layers init_catalog act_catalog =
             Inr (PyList (number_hidden_layers d # widths @ inits @ acts)) \<and>
           widths = map sint ws @ replicate (nat (max_layers + 1 - number_hidden_layers d)) (- 1) \<and>
           inits = map (\<lambda>f. int (first_index init_catalog f)) (init_functions d) @
                     replicate (nat (max_layers - number_hidden_layers d)) (- 1) \<and>
           acts = map (\<lambda>f. int (first_index act_catalog f)) (act_functions d) @
                     replicate (nat (max_layers - number_hidden_layers d)) (- 1) \<and>
           int (length widths) = max_layers + 1 \<and>
           int (length inits) = max_layers + 1 \<and>
           int (length acts) = max_layers + 1 \<and>
           int (length (number_hidden_layers d # widths @ inits @ acts)) =
             1 + 3 * (max_layers + 1)"
  using assms
  by (simp add: codify_components_def index_each_in_catalog padding_def Let_def)

lemma codify_components_on_list_example:
  "codify_components mlp_example 4 initializations activations =
     Inr (PyList [3, 10, 20, 30, - 1, - 1, 2, 1, 0, 3, - 1, 0, 1, 6, 5, - 1])"
  by (simp add: mlp_example_def initializations_def activations_def eval_nat_numeral
      codify_components_def padding_def list_index_def)

text \<open>
  Claim C9. \<^verbatim>\<open>add_layer\<close> rebinds \<^verbatim>\<open>self.dims\<close> to the array that \<^verbatim>\<open>np.insert\<close>
  returns. On the descriptor that results, which has 4 hidden layers, 4 widths, 5
  initializers and 5 activations from the catalogs, \<^verbatim>\<open>codify_components\<close> with
  \<open>max_layers = 4\<close> adds the layer count to every width instead of prepending it, and raises
  when it adds the five initializer positions to the four sums.
\<close>

theorem codify_components_after_add_layer:
  "\<exists>m. mlp_add_layer mlp_example 2 15 (Some GlorotNormal) (Some Elu) (1 / 3) = Inr m \<and>
       number_hidden_layers m = 4 \<and> dims m = NdArray [10, 20, 15, 30] \<and>
       length (init_functions m) = 5 \<and> length (act_functions m) = 5 \<and>
       set (init_functions m) \<subseteq> set initializations \<and>
       set (act_functions m) \<subseteq> set activations \<and>
       codify_components m 4 initializations activations = Inl ValueError"
  by (simp add: mlp_example_def mlp_add_layer_def np_insert_def norm_index_def insert_nth_def
      initializations_def activations_def codify_components_def padding_def list_index_def
      np_binop_def add64_def eval_nat_numeral)

section \<open>Properties of the activation and initializer edits\<close>

lemma norm_index_nonneg: "0 \<le> i \<Longrightarrow> i < int n \<Longrightarrow> norm_index n i = Some (nat i)"
  by (simp add: norm_index_def)

lemma norm_index_neg: "i < 0 \<Longrightarrow> - int n \<le> i \<Longrightarrow> norm_index n i = Some (nat (int n + i))"
  by (simp add: norm_index_def)

lemma norm_index_out: "i < - int n \<or> int n \<le> i \<Longrightarrow> norm_index n i = None"
  by (auto simp add: norm_index_def)

text \<open>
  Claim C7, as amended. The methods of \<^verbatim>\<open>NetworkDescriptor\<close>, which the MLP and the
  convolutional descriptor inherit, return without effect and without error when the position
  is below 0 or above the layer count, and overwrite the entry at the position when it lies
  between 0 and the layer count and indexes the sequence. The overrides of
  \<^verbatim>\<open>TConvDescriptor\<close> test nothing: they overwrite the entry whenever the position indexes
  the sequence, a negative position counting from the end, and raise \<^verbatim>\<open>IndexError\<close>
  otherwise.
\<close>

theorem change_entry_bounds:
  fixes d :: "'a network_descriptor_scheme" and t :: tconv_descriptor
  shows
  "(layer_pos < 0 \<or> layer_pos > number_hidden_layers d \<longrightarrow>
      change_activation d layer_pos a = Inr d \<and> change_weight_init d layer_pos w = Inr d) \<and>
   (0 \<le> layer_pos \<and> layer_pos \<le> number_hidden_layers d \<and>
    layer_pos < int (length (act_functions d)) \<longrightarrow>
      change_activation d layer_pos a =
        Inr (d\<lparr>act_functions := (act_functions d)[nat layer_pos := a]\<rparr>)) \<and>
   (0 \<le> layer_pos \<and> layer_pos \<le> number_hidden_layers d \<and>
    layer_pos < int (length (init_functions d)) \<longrightarrow>
      change_weight_init d layer_pos w =
        Inr (d\<lparr>init_functions := (init_functions d)[nat layer_pos := w]\<rparr>)) \<and>
   (0 \<le> layer_pos \<and> layer_pos < int (length (act_functions t)) \<longrightarrow>
      tconv_change_activation t layer_pos a =
        Inr (t\<lparr>act_functions := (act_functions t)[nat layer_pos := a]\<rparr>)) \<and>
   (layer_pos < 0 \<and> - int (length (act_functions t)) \<le> layer_pos \<longrightarrow>
      tconv_change_activation t layer_pos a =
        Inr (t\<lparr>act_functions :=
                 (act_functions t)[nat (int (length (act_functions t)) + layer_pos) := a]\<rparr>)) \<and>
   (layer_pos < - int (length (act_functions t)) \<or> int (length (act_functions t)) \<le> layer_pos \<longrightarrow>
      tconv_change_activation t layer_pos a = Inl IndexError) \<and>
   (0 \<le> layer_pos \<and> layer_pos < int (length (init_functions t)) \<longrightarrow>
      tconv_change_weight_init t layer_pos w =
        Inr (t\<lparr>init_functions := (init_functions t)[nat layer_pos := w]\<rparr>)) \<and>
   (layer_pos < 0 \<and> - int (length (init_functions t)) \<le> layer_pos \<longrightarrow>
      tconv_change_weight_init t layer_pos w =
        Inr (t\<lparr>init_functions :=
                 (init_functions t)[nat (int (length (init_functions t)) + layer_pos) := w]\<rparr>)) \<and>
   (layer_pos < - int (length (init_functions t)) \<or> int (length (init_functions t)) \<le> layer_pos \<longrightarrow>
      tconv_change_weight_init t layer_pos w = Inl IndexError)"
  by (simp add: change_activation_def change_weight_init_def tconv_change_activation_def
      tconv_change_weight_init_def py_setitem_def norm_index_nonneg norm_index_neg norm_index_out)

theorem change_entry_bounds_witness:
  "change_activation mlp_example 5 (Some Elu) = Inr mlp_example \<and>
   change_weight_init mlp_example (- 1) None = Inr mlp_example \<and>
   change_activation mlp_example 2 (Some Elu) =
     Inr (mlp_example\<lparr>act_functions := [None, Some Relu, Some Elu, Some Sigmoid]\<rparr>) \<and>
   change_weight_init mlp_example 0 None =
     Inr (mlp_example\<lparr>init_functions :=
            [None, Some RandomUniform, Some RandomNormal, Some GlorotUniform]\<rparr>) \<and>
   tconv_change_activation tconv_example 1 None =
     Inr (tconv_example\<lparr>act_functions := [Some Relu, None]\<rparr>) \<and>
   tconv_change_weight_init tconv_example (- 2) None =
     Inr (tconv_example\<lparr>init_functions := [None, Some RandomUniform]\<rparr>) \<and>
   tconv_change_activation tconv_example 2 None = Inl IndexError"
  using change_entry_bounds [of 5 mlp_example "Some Elu" None tconv_example]
        change_entry_bounds [of "- 1" mlp_example "Some Elu" None tconv_example]
        change_entry_bounds [of 2 mlp_example "Some Elu" None tconv_example]
        change_entry_bounds [of 0 mlp_example "Some Elu" None tconv_example]
        change_entry_bounds [of 1 mlp_example None None tconv_example]
        change_entry_bounds [of "- 2" mlp_example None None tconv_example]
        change_entry_bounds [of 2 mlp_example None None tconv_example]
  by (simp add: mlp_example_def tconv_example_def)

text \<open>
  The claim as stated fails on \<^verbatim>\<open>TConvDescriptor\<close>: position \<open>-1\<close> is outside the range
  from 0 to the layer count, and the call overwrites the last entry; position 7 is outside
  the range too, and the call raises. On a convolutional descriptor, which holds one
  activation per layer, the position equal to the layer count is inside the range and indexes
  nothing: the inherited method raises.
\<close>

theorem change_activation_tconv_counterexample:
  "(- 1 < (0::int) \<or> - 1 > number_hidden_layers tconv_example) \<and>
   tconv_change_activation tconv_example (- 1) None \<noteq> Inr tconv_example \<and>
   (7 > number_hidden_layers tconv_example \<and>
    tconv_change_activation tconv_example 7 None = Inl IndexError) \<and>
   (0 \<le> number_hidden_layers conv_example \<and>
    change_activation conv_example (number_hidden_layers conv_example) (Some Elu) =
      Inl IndexError)"
  by (simp add: tconv_example_def tconv_change_activation_def py_setitem_def norm_index_def
      conv_example_def change_activation_def)

section \<open>Insertion and removal in sequences\<close>

lemma length_insert_nth: "j \<le> length xs \<Longrightarrow> length (insert_nth j v xs) = Suc (length xs)"
  by (simp add: insert_nth_def)

lemma length_py_insert: "length (py_insert xs i v) = Suc (length xs)"
  by (auto simp add: py_insert_def insert_nth_def norm_index_def split: option.splits)

lemma set_py_insert: "set (py_insert xs i v) = insert v (set xs)"
proof -
  have "\<And>j. set (take j xs @ v # drop j xs) = insert v (set xs)"
    by (metis append_take_drop_id list.simps(15) set_append Un_insert_right)
  then show ?thesis
    by (auto simp add: py_insert_def insert_nth_def split: option.splits)
qed

lemma remove_insert_nth: "j \<le> length xs \<Longrightarrow> remove_nth j (insert_nth j v xs) = xs"
  by (simp add: remove_nth_def insert_nth_def min_def)

lemma py_pop_py_insert:
  "0 \<le> i \<Longrightarrow> i \<le> int (length xs) \<Longrightarrow> py_pop (py_insert xs i v) i = Inr xs"
proof (cases "i = int (length xs)")
  case True
  then show ?thesis
    by (simp add: py_pop_def py_insert_def norm_index_def remove_nth_def)
next
  case False
  assume "0 \<le> i" "i \<le> int (length xs)"
  with False have i: "i < int (length xs)" by simp
  with \<open>0 \<le> i\<close> have "norm_index (length xs) i = Some (nat i)"
    by (simp add: norm_index_def)
  moreover from i \<open>0 \<le> i\<close> have "norm_index (Suc (length xs)) i = Some (nat i)"
    by (simp add: norm_index_def)
  ultimately show ?thesis using i \<open>0 \<le> i\<close>
    by (simp add: py_pop_def py_insert_def length_insert_nth remove_insert_nth)
qed

lemma np_delete_np_insert:
  "0 \<le> i \<Longrightarrow> i \<le> int (length xs) \<Longrightarrow>
   then_do (np_insert xs i v) (\<lambda>ys. np_delete ys i) = Inr xs"
proof (cases "i = int (length xs)")
  case True
  then show ?thesis
    by (simp add: np_insert_def np_delete_def norm_index_def remove_nth_def)
next
  case False
  assume "0 \<le> i" "i \<le> int (length xs)"
  with False have i: "i < int (length xs)" by simp
  with \<open>0 \<le> i\<close> show ?thesis
    by (simp add: np_insert_def np_delete_def norm_index_def remove_insert_nth insert_nth_def
        remove_nth_def min_def)
qed

lemma np_insert_ok:
  "0 \<le> i \<Longrightarrow> i \<le> int (length xs) \<Longrightarrow> \<exists>ys. np_insert xs i v = Inr ys \<and> np_delete ys i = Inr xs"
  using np_delete_np_insert [of i xs v]
  by (cases "np_insert xs i v") auto

lemma mlp_add_remove_restores:
  assumes "2 \<le> pos" and "pos < number_hidden_layers m"
    and "pos \<le> int (length (items (dims m)))"
    and "pos \<le> int (length (init_functions m))"
    and "pos \<le> int (length (act_functions m))"
    and "pos \<le> int (length (dropout_probs m))"
  shows "then_do (mlp_add_layer m pos width w a p) (\<lambda>m'. mlp_remove_layer m' pos) =
           Inr (m\<lparr>dims := NdArray (items (dims m))\<rparr>)"
proof -
  from assms have p0: "0 \<le> pos" by simp
  obtain ds where ds: "np_insert (items (dims m)) pos width = Inr ds"
      "np_delete ds pos = Inr (items (dims m))"
    using np_insert_ok [OF p0 assms(3)] by blast
  obtain ws where ws: "np_insert (init_functions m) pos w = Inr ws"
      "np_delete ws pos = Inr (init_functions m)"
    using np_insert_ok [OF p0 assms(4)] by blast
  obtain as where as: "np_insert (act_functions m) pos a = Inr as"
      "np_delete as pos = Inr (act_functions m)"
    using np_insert_ok [OF p0 assms(5)] by blast
  obtain ps where ps: "np_insert (dropout_probs m) pos p = Inr ps"
      "np_delete ps pos = Inr (dropout_probs m)"
    using np_insert_ok [OF p0 assms(6)] by blast
  from assms(1,2) ds ws as ps show ?thesis
    by (simp add: mlp_add_layer_def mlp_remove_layer_def)
qed

section \<open>The shape recomputation runs through on consistent descriptors\<close>

lemma two_or_more: "2 \<le> length xs \<Longrightarrow> \<exists>a b r. xs = a # b # r"
  by (cases xs; cases "tl xs") auto

lemma three_or_more: "3 \<le> length xs \<Longrightarrow> \<exists>a b c r. xs = a # b # c # r"
  by (cases xs; cases "tl xs"; cases "tl (tl xs)") auto

lemma compute_output_contractive_total:
  assumes "2 \<le> length shape" and "3 \<le> length f" and "2 \<le> length s" and "t < 3"
  shows "\<exists>a b. compute_output shape t f s = Inr [a, b, f ! 2]"
proof -
  from assms(1) obtain h w ri where "shape = h # w # ri" using two_or_more by blast
  moreover from assms(2) obtain fh fw fc rf where "f = fh # fw # fc # rf"
    using three_or_more by blast
  moreover from assms(3) obtain sh sw rs where "s = sh # sw # rs" using two_or_more by blast
  ultimately show ?thesis using assms(4) by (simp add: compute_output_contractive)
qed

lemma py_index_nat: "lay < length xs \<Longrightarrow> py_index xs (int lay) = Inr (xs ! lay)"
  by (simp add: py_index_def norm_index_def)

lemma flat_of_size_elim: "flat_of_size n e \<Longrightarrow> \<exists>xs. e = Flat xs \<and> n \<le> length xs"
  by (cases e) auto

lemma reset_loop_total:
  assumes "list_all (flat_of_size 3) fs" and "list_all (flat_of_size 2) ss"
    and "\<forall>lay \<in> set lays. lay < length fs \<and> lay < length ss"
    and "2 \<le> length shape"
  shows "\<exists>shs. reset_loop fs ss lays shape acc = Inr shs \<and> length shs = length acc + length lays"
  using assms(3,4)
proof (induction lays arbitrary: shape acc)
  case Nil
  then show ?case by simp
next
  case (Cons lay lays)
  then have lay: "lay < length fs" "lay < length ss" by simp_all
  from lay(1) assms(1) obtain f where f: "fs ! lay = Flat f" "3 \<le> length f"
    using flat_of_size_elim by (metis list_all_length)
  from lay(2) assms(2) obtain s where s: "ss ! lay = Flat s" "2 \<le> length s"
    using flat_of_size_elim by (metis list_all_length)
  from Cons.prems(2) f(2) s(2) obtain a b where
    out: "compute_output shape 0 f s = Inr [a, b, f ! 2]"
    using compute_output_contractive_total [of shape f s 0] by auto
  from Cons.prems(1) have "\<forall>lay \<in> set lays. lay < length fs \<and> lay < length ss" by simp
  then obtain shs where "reset_loop fs ss lays [a, b, f ! 2] (acc @ [[a, b, f ! 2]]) = Inr shs"
    "length shs = length (acc @ [[a, b, f ! 2]]) + length lays"
    using Cons.IH [of "[a, b, f ! 2]" "acc @ [[a, b, f ! 2]]"] by auto
  with lay f s out show ?case by (simp add: py_index_nat)
qed

lemma reset_shapes_total:
  assumes "list_all (flat_of_size 3) (filters d)" and "list_all (flat_of_size 2) (strides d)"
    and "number_hidden_layers d \<le> int (length (filters d))"
    and "number_hidden_layers d \<le> int (length (strides d))"
    and "2 \<le> length (input_dim d)"
  shows "\<exists>shs. reset_shapes d = Inr (d\<lparr>shapes := shs\<rparr>)"
proof -
  from assms(3,4) have "\<forall>lay \<in> set [0 ..< nat (number_hidden_layers d)].
      lay < length (filters d) \<and> lay < length (strides d)" by auto
  from reset_loop_total [OF assms(1,2) this assms(5), of "[]"] obtain shs where
    "reset_loop (filters d) (strides d) [0 ..< nat (number_hidden_layers d)] (input_dim d) [] =
       Inr shs" by blast
  then have "reset_shapes d = Inr (d\<lparr>shapes := shs\<rparr>)" by (simp add: reset_shapes_def)
  then show ?thesis by blast
qed

lemma list_all_py_insert: "list_all P xs \<Longrightarrow> P v \<Longrightarrow> list_all P (py_insert xs i v)"
  by (simp add: list_all_iff set_py_insert)

lemma conv_add_layer_total:
  assumes "conv_consistent d" and "last_shape_roomy (shapes d) = Inr True"
    and "lay_type \<le> 2"
  shows "\<exists>d1. conv_add_layer d pos lay_type (p0, p1, p2, p3) c = Inr (0, d1) \<and>
           layers d1 = py_insert (layers d) pos lay_type \<and>
           number_hidden_layers d1 = number_hidden_layers d + 1 \<and>
           filters d1 = py_insert (filters d) pos (Flat [p1, p1, if lay_type < 2 then 1 else c]) \<and>
           act_functions d1 = py_insert (act_functions d) pos (if lay_type < 2 then None else p2) \<and>
           init_functions d1 =
             py_insert (init_functions d) pos (if lay_type < 2 then None else p3) \<and>
           strides d1 = py_insert (strides d) pos (Flat [p0, p0, 1]) \<and>
           input_dim d1 = input_dim d \<and> output_dim d1 = output_dim d \<and>
           dropout_probs d1 = dropout_probs d \<and> dropout d1 = dropout d \<and>
           batch_norm d1 = batch_norm d"
proof (cases "lay_type < 2")
  case True
  let ?e = "d\<lparr>layers := py_insert (layers d) pos lay_type,
              number_hidden_layers := number_hidden_layers d + 1,
              filters := py_insert (filters d) pos (Flat [p1, p1, 1]),
              act_functions := py_insert (act_functions d) pos None,
              init_functions := py_insert (init_functions d) pos None,
              strides := py_insert (strides d) pos (Flat [p0, p0, 1])\<rparr>"
  from assms(1) have "\<exists>shs. reset_shapes ?e = Inr (?e\<lparr>shapes := shs\<rparr>)"
    by (intro reset_shapes_total)
       (simp_all add: conv_consistent_def list_all_py_insert length_py_insert)
  then obtain shs where "reset_shapes ?e = Inr (?e\<lparr>shapes := shs\<rparr>)" by blast
  with assms(2) True show ?thesis
    by (simp add: conv_add_layer_def)
next
  case False
  with assms(3) have t: "lay_type = 2" by simp
  let ?e = "d\<lparr>layers := py_insert (layers d) pos 2,
              number_hidden_layers := number_hidden_layers d + 1,
              strides := py_insert (strides d) pos (Flat [p0, p0, 1]),
              filters := py_insert (filters d) pos (Flat [p1, p1, c]),
              act_functions := py_insert (act_functions d) pos p2,
              init_functions := py_insert (init_functions d) pos p3\<rparr>"
  from assms(1) have "\<exists>shs. reset_shapes ?e = Inr (?e\<lparr>shapes := shs\<rparr>)"
    by (intro reset_shapes_total)
       (simp_all add: conv_consistent_def list_all_py_insert length_py_insert)
  then obtain shs where "reset_shapes ?e = Inr (?e\<lparr>shapes := shs\<rparr>)" by blast
  with assms(2) t show ?thesis
    by (simp add: conv_add_layer_def)
qed

lemma conv_remove_layer_after_insert:
  assumes "conv_consistent d" and "0 \<le> pos" and "pos \<le> number_hidden_layers d"
    and "number_hidden_layers d1 = number_hidden_layers d + 1"
    and "filters d1 = py_insert (filters d) pos f"
    and "act_functions d1 = py_insert (act_functions d) pos a"
    and "init_functions d1 = py_insert (init_functions d) pos w"
    and "strides d1 = py_insert (strides d) pos s"
    and "input_dim d1 = input_dim d"
  shows "\<exists>d2. conv_remove_layer d1 pos = Inr d2 \<and>
           filters d2 = filters d \<and> strides d2 = strides d \<and>
           act_functions d2 = act_functions d \<and> init_functions d2 = init_functions d \<and>
           number_hidden_layers d2 = number_hidden_layers d \<and>
           layers d2 = layers d1 \<and> dropout_probs d2 = dropout_probs d1"
proof -
  let ?e = "d1\<lparr>filters := filters d, act_functions := act_functions d,
               init_functions := init_functions d, strides := strides d,
               number_hidden_layers := number_hidden_layers d1 - 1\<rparr>"
  from assms(1,4,9) have "\<exists>shs. reset_shapes ?e = Inr (?e\<lparr>shapes := shs\<rparr>)"
    by (intro reset_shapes_total) (simp_all add: conv_consistent_def)
  then obtain shs where "reset_shapes ?e = Inr (?e\<lparr>shapes := shs\<rparr>)" by blast
  moreover from assms(1,2,3) have "py_pop (py_insert (filters d) pos f) pos = Inr (filters d)"
    "py_pop (py_insert (act_functions d) pos a) pos = Inr (act_functions d)"
    "py_pop (py_insert (init_functions d) pos w) pos = Inr (init_functions d)"
    "py_pop (py_insert (strides d) pos s) pos = Inr (strides d)"
    by (simp_all add: conv_consistent_def py_pop_py_insert)
  ultimately show ?thesis using assms(4-8)
    by (simp add: conv_remove_layer_def)
qed

section \<open>Insertion followed by removal\<close>

text \<open>
  Claim C4, as amended. On an MLP descriptor, \<^verbatim>\<open>add_layer\<close> at a position from 2 up to
  below the layer count, at which every parallel sequence can take an entry, followed by
  \<^verbatim>\<open>remove_layer\<close> at the same position gives back the descriptor: the widths, as the
  array of the values that were there, the initializer choices, activation choices, dropout
  rates and the layer count. On a consistent convolutional
  descriptor whose last cached shape admits an insertion, \<^verbatim>\<open>add_layer\<close> of a layer of
  kind 0, 1 or 2 at a position from 0 up to the layer count returns 0, the following
  \<^verbatim>\<open>remove_layer\<close> at the same position returns, and filters, strides, initializer
  choices, activation choices, dropout rates and layer count are those before the two calls.
\<close>

theorem add_then_remove_restores:
  fixes m :: mlp_descriptor and d :: conv_descriptor
  shows
  "(2 \<le> pos \<and> pos < number_hidden_layers m \<and> pos \<le> int (length (items (dims m))) \<and>
    pos \<le> int (length (init_functions m)) \<and> pos \<le> int (length (act_functions m)) \<and>
    pos \<le> int (length (dropout_probs m)) \<longrightarrow>
      then_do (mlp_add_layer m pos width w a p) (\<lambda>m'. mlp_remove_layer m' pos) =
        Inr (m\<lparr>dims := NdArray (items (dims m))\<rparr>)) \<and>
   (conv_consistent d \<and> last_shape_roomy (shapes d) = Inr True \<and>
    0 \<le> pos \<and> pos \<le> number_hidden_layers d \<and> lay_type \<le> 2 \<longrightarrow>
      (\<exists>d1 d2. conv_add_layer d pos lay_type lay_params c = Inr (0, d1) \<and>
         conv_remove_layer d1 pos = Inr d2 \<and>
         filters d2 = filters d \<and> strides d2 = strides d \<and>
         init_functions d2 = init_functions d \<and> act_functions d2 = act_functions d \<and>
         dropout_probs d2 = dropout_probs d \<and>
         number_hidden_layers d2 = number_hidden_layers d))"
proof (intro conjI impI)
  assume "2 \<le> pos \<and> pos < number_hidden_layers m \<and> pos \<le> int (length (items (dims m))) \<and>
    pos \<le> int (length (init_functions m)) \<and> pos \<le> int (length (act_functions m)) \<and>
    pos \<le> int (length (dropout_probs m))"
  then show "then_do (mlp_add_layer m pos width w a p) (\<lambda>m'. mlp_remove_layer m' pos) =
      Inr (m\<lparr>dims := NdArray (items (dims m))\<rparr>)"
    by (simp add: mlp_add_remove_restores)
next
  assume h: "conv_consistent d \<and> last_shape_roomy (shapes d) = Inr True \<and>
    0 \<le> pos \<and> pos \<le> number_hidden_layers d \<and> lay_type \<le> 2"
  obtain p0 p1 p2 p3 where lp: "lay_params = (p0, p1, p2, p3)" by (cases lay_params) auto
  from h obtain d1 where d1: "conv_add_layer d pos lay_type (p0, p1, p2, p3) c = Inr (0, d1)"
      "number_hidden_layers d1 = number_hidden_layers d + 1"
      "filters d1 = py_insert (filters d) pos (Flat [p1, p1, if lay_type < 2 then 1 else c])"
      "act_functions d1 = py_insert (act_functions d) pos (if lay_type < 2 then None else p2)"
      "init_functions d1 = py_insert (init_functions d) pos (if lay_type < 2 then None else p3)"
      "strides d1 = py_insert (strides d) pos (Flat [p0, p0, 1])"
      "input_dim d1 = input_dim d" "dropout_probs d1 = dropout_probs d"
    using conv_add_layer_total [of d lay_type pos p0 p1 p2 p3 c] by blast
  from h d1 obtain d2 where "conv_remove_layer d1 pos = Inr d2"
      "filters d2 = filters d" "strides d2 = strides d"
      "act_functions d2 = act_functions d" "init_functions d2 = init_functions d"
      "number_hidden_layers d2 = number_hidden_layers d" "dropout_probs d2 = dropout_probs d1"
    using conv_remove_layer_after_insert [of d pos d1] by blast
  with d1 lp show "\<exists>d1 d2. conv_add_layer d pos lay_type lay_params c = Inr (0, d1) \<and>
         conv_remove_layer d1 pos = Inr d2 \<and>
         filters d2 = filters d \<and> strides d2 = strides d \<and>
         init_functions d2 = init_functions d \<and> act_functions d2 = act_functions d \<and>
         dropout_probs d2 = dropout_probs d \<and>
         number_hidden_layers d2 = number_hidden_layers d"
    by auto
qed

lemma conv_example_consistent: "conv_consistent conv_example"
  by (simp add: conv_consistent_def conv_example_def)

lemma conv_example_roomy: "last_shape_roomy (shapes conv_example) = Inr True"
  by (simp add: last_shape_roomy_def conv_example_def py_index_def norm_index_def)

theorem add_then_remove_restores_witness:
  "then_do (mlp_add_layer mlp_example 2 15 (Some GlorotNormal) (Some Elu) (1 / 3))
     (\<lambda>m'. mlp_remove_layer m' 2) = Inr (mlp_example\<lparr>dims := NdArray [10, 20, 30]\<rparr>) \<and>
   (\<exists>d1 d2. conv_add_layer conv_example 1 2 (2, 3, Some Elu, Some GlorotUniform) 32 = Inr (0, d1) \<and>
      conv_remove_layer d1 1 = Inr d2 \<and>
      filters d2 = filters conv_example \<and> strides d2 = strides conv_example \<and>
      init_functions d2 = init_functions conv_example \<and>
      act_functions d2 = act_functions conv_example \<and>
      dropout_probs d2 = dropout_probs conv_example \<and>
      number_hidden_layers d2 = number_hidden_layers conv_example)"
proof -
  have h1: "(2::int) \<le> 2 \<and> 2 < number_hidden_layers mlp_example \<and>
        2 \<le> int (length (items (dims mlp_example))) \<and>
        2 \<le> int (length (init_functions mlp_example)) \<and>
        2 \<le> int (length (act_functions mlp_example)) \<and>
        2 \<le> int (length (dropout_probs mlp_example))"
    by (simp add: mlp_example_def)
  have h2: "conv_consistent conv_example \<and>
        last_shape_roomy (shapes conv_example) = Inr True \<and>
        (0::int) \<le> 1 \<and> 1 \<le> number_hidden_layers conv_example \<and> (2::int) \<le> 2"
    by (simp add: conv_example_consistent conv_example_roomy) (simp add: conv_example_def)
  have ws: "items (dims mlp_example) = [10, 20, 30]" by (simp add: mlp_example_def)
  from h1 add_then_remove_restores [of 2 mlp_example 15 "Some GlorotNormal" "Some Elu" "1 / 3"
        conv_example 2 "(2, 3, Some Elu, Some GlorotUniform)" 32]
  have "then_do (mlp_add_layer mlp_example 2 15 (Some GlorotNormal) (Some Elu) (1 / 3))
     (\<lambda>m'. mlp_remove_layer m' 2) =
       Inr (mlp_example\<lparr>dims := NdArray (items (dims mlp_example))\<rparr>)" by blast
  then have a: "then_do (mlp_add_layer mlp_example 2 15 (Some GlorotNormal) (Some Elu) (1 / 3))
     (\<lambda>m'. mlp_remove_layer m' 2) = Inr (mlp_example\<lparr>dims := NdArray [10, 20, 30]\<rparr>)"
    by (simp only: ws)
  from h2 add_then_remove_restores [of 1 mlp_example 15 "Some GlorotNormal" "Some Elu" "1 / 3"
        conv_example 2 "(2, 3, Some Elu, Some GlorotUniform)" 32]
  have "\<exists>d1 d2. conv_add_layer conv_example 1 2 (2, 3, Some Elu, Some GlorotUniform) 32 =
        Inr (0, d1) \<and>
      conv_remove_layer d1 1 = Inr d2 \<and>
      filters d2 = filters conv_example \<and> strides d2 = strides conv_example \<and>
      init_functions d2 = init_functions conv_example \<and>
      act_functions d2 = act_functions conv_example \<and>
      dropout_probs d2 = dropout_probs conv_example \<and>
      number_hidden_layers d2 = number_hidden_layers conv_example" by blast
  with a show ?thesis by blast
qed

text \<open>
  The claim as stated fails at position 0 of an MLP descriptor: \<^verbatim>\<open>add_layer\<close> inserts
  there, and \<^verbatim>\<open>remove_layer\<close>, which leaves positions 0 and 1 alone, removes nothing.
\<close>

theorem mlp_add_then_remove_counterexample:
  "then_do (mlp_add_layer mlp_example 0 5 None None 0) (\<lambda>m'. mlp_remove_layer m' 0) =
     Inr (mlp_example\<lparr>dims := NdArray [5, 10, 20, 30],
            init_functions := None # init_functions mlp_example,
            act_functions := None # act_functions mlp_example,
            number_hidden_layers := 4,
            dropout_probs := 0 # dropout_probs mlp_example\<rparr>) \<and>
   then_do (mlp_add_layer mlp_example 0 5 None None 0) (\<lambda>m'. mlp_remove_layer m' 0) \<noteq>
     Inr mlp_example \<and>
   then_do (mlp_add_layer mlp_example 0 5 None None 0) (\<lambda>m'. mlp_remove_layer m' 0) \<noteq>
     Inr (mlp_example\<lparr>dims := NdArray (items (dims mlp_example))\<rparr>)"
  by (simp add: mlp_example_def mlp_add_layer_def mlp_remove_layer_def np_insert_def
      norm_index_def insert_nth_def)

section \<open>Insertion into a convolutional descriptor\<close>

text \<open>
  Claim C1. \<^verbatim>\<open>ConvDescriptor.add_layer\<close> inserts the kind into \<^verbatim>\<open>layers\<close> before it
  tests the last cached shape. On a descriptor whose last cached shape is 2 by 2 the call
  returns 1, and the sequence of layer kinds has grown by the kind passed.
\<close>

theorem conv_add_layer_failure_changes_layers:
  "conv_add_layer conv_small 0 2 (1, 2, Some Relu, Some GlorotUniform) 7 =
     Inr (1, conv_small\<lparr>layers := [2, 2]\<rparr>) \<and>
   conv_small\<lparr>layers := [2, 2]\<rparr> \<noteq> conv_small"
  by (simp add: conv_small_def conv_add_layer_def last_shape_roomy_def py_index_def
      py_insert_def norm_index_def insert_nth_def)

section \<open>Random initialization of a convolutional descriptor\<close>

lemma plain_step:
  "compute_output [h, w, c] 0 [2, 2, 3] [1, 1, 1] = Inr [max64 (h - 1) 1, max64 (w - 1) 1, 3]"
  by (simp add: compute_output_contractive floordiv64_def)

text \<open>The sample genome with a 2 by 2 cache entry is one that \<^verbatim>\<open>random_init\<close> builds.\<close>

lemma conv_small_from_random_init:
  "conv_random_init conv_fresh [3, 3, 3] [4] 1 2 3 None 0 (\<lambda>i. plain_conv_draw) False =
     Inr conv_small"
  by (simp add: conv_random_init_def conv_fresh_def plain_conv_draw_def plain_step
      too_small_def py_index_0 py_index_1 Let_def max64_def conv_small_def)

text \<open>
  Claim C2. \<^verbatim>\<open>random_init\<close> on a 28 by 28 by 3 input with one layer allowed accepts a
  convolution of filter size 2 and stride 1 and caches the shape 27 by 27 by 3. The entry it
  stores in \<^verbatim>\<open>filters\<close> is the pair of the convolution's triple and \<^verbatim>\<open>None\<close>, and
  \<^verbatim>\<open>reset_shapes\<close> hands that pair to \<^verbatim>\<open>compute_output\<close> as if it were a triple: the
  recomputation raises instead of yielding the cache that \<^verbatim>\<open>random_init\<close> built.
\<close>

theorem reset_shapes_raises_after_random_init:
  "\<exists>g. conv_random_init conv_fresh [28, 28, 3] [20] 1 2 3 None 0 (\<lambda>i. plain_conv_draw) False
         = Inr g \<and>
       number_hidden_layers g = 1 \<and>
       filters g = [Paired [2, 2, 3] None] \<and>
       shapes g = [[27, 27, 3]] \<and>
       reset_shapes g = Inl ValueError \<and> reset_shapes g \<noteq> Inr g"
  by (simp add: conv_random_init_def conv_fresh_def plain_conv_draw_def plain_step
      too_small_def py_index_0 py_index_1 Let_def max64_def reset_shapes_def py_index_def norm_index_def)

text \<open>
  Claim C3. \<^verbatim>\<open>random_init\<close> sets the layer count to its first draw plus one and lowers
  it only when a layer is rejected. With two layers allowed, a first draw of 0 and two layers
  accepted, the genome has two entries in \<^verbatim>\<open>layers\<close>, \<^verbatim>\<open>filters\<close>, \<^verbatim>\<open>strides\<close> and
  the shape cache, and a layer count of 1. Moreover \<^verbatim>\<open>remove_layer\<close> pops no entry of
  \<^verbatim>\<open>layers\<close>: on the one-layer genome it leaves a layer count of 0, no filter and one
  layer kind.
\<close>

theorem conv_random_init_count_mismatch:
  "(\<exists>g. conv_random_init conv_fresh [28, 28, 3] [20] 2 2 3 None 0 (\<lambda>i. plain_conv_draw) False
         = Inr g \<and>
       number_hidden_layers g = 1 \<and>
       layers g = [2, 2] \<and>
       filters g = [Paired [2, 2, 3] None, Paired [2, 2, 3] None] \<and>
       strides g = [Paired [1, 1, 1] None, Paired [1, 1, 1] None] \<and>
       shapes g = [[27, 27, 3], [26, 26, 3]]) \<and>
   (\<exists>g. conv_remove_layer conv_small 0 = Inr g \<and>
       number_hidden_layers g = 0 \<and> filters g = [] \<and> strides g = [] \<and> layers g = [2])"
  by (simp add: conv_random_init_def conv_fresh_def plain_conv_draw_def plain_step
      too_small_def py_index_0 py_index_1 Let_def max64_def conv_remove_layer_def conv_small_def
      py_pop_def norm_index_def remove_nth_def reset_shapes_def)

section \<open>Insertion into a transposed-convolutional descriptor\<close>

lemma compute_output_expansive_total:
  assumes "2 \<le> length shape" and "2 \<le> length f" and "2 \<le> length s"
  shows "\<exists>a b. compute_output shape 4 f s = Inr [a, b]"
proof -
  from assms(1) obtain h w ri where "shape = h # w # ri" using two_or_more by blast
  moreover from assms(2) obtain fh fw rf where "f = fh # fw # rf" using two_or_more by blast
  moreover from assms(3) obtain sh sw rs where "s = sh # sw # rs" using two_or_more by blast
  ultimately show ?thesis by (simp add: compute_output_expansive)
qed

lemma py_index_2_total: "3 \<le> length f \<Longrightarrow> py_index f 2 = Inr (f ! 2)"
  by (simp add: py_index_def norm_index_def)

lemma t_reset_loop_total:
  assumes "list_all (\<lambda>f. 3 \<le> length f) fs" and "list_all (\<lambda>s. 2 \<le> length s) ss"
    and "\<forall>lay \<in> set lays. lay < length fs \<and> lay < length ss"
    and "2 \<le> length shape"
  shows "\<exists>shs. t_reset_loop fs ss lays shape acc = Inr shs \<and>
           length shs = length acc + length lays"
  using assms(3,4)
proof (induction lays arbitrary: shape acc)
  case Nil
  then show ?case by simp
next
  case (Cons lay lays)
  then have lay: "lay < length fs" "lay < length ss" by simp_all
  from lay(1) assms(1) have f: "3 \<le> length (fs ! lay)" by (simp add: list_all_length)
  from lay(2) assms(2) have s: "2 \<le> length (ss ! lay)" by (simp add: list_all_length)
  from Cons.prems(2) f s obtain a b where
    out: "compute_output shape 4 (fs ! lay) (ss ! lay) = Inr [a, b]"
    using compute_output_expansive_total [of shape "fs ! lay" "ss ! lay"] by auto
  from Cons.prems(1) have "\<forall>lay \<in> set lays. lay < length fs \<and> lay < length ss" by simp
  then obtain shs where
    "t_reset_loop fs ss lays [a, b] (acc @ [[- 1] @ [a, b] @ [fs ! lay ! 2]]) = Inr shs"
    "length shs = length (acc @ [[- 1] @ [a, b] @ [fs ! lay ! 2]]) + length lays"
    using Cons.IH [of "[a, b]" "acc @ [[- 1] @ [a, b] @ [fs ! lay ! 2]]"] by auto
  with lay f out show ?case by (simp add: py_index_nat py_index_2_total)
qed

lemma t_reset_shapes_total:
  assumes "list_all (\<lambda>f. 3 \<le> length f) (t_filters d)"
    and "list_all (\<lambda>s. 2 \<le> length s) (t_strides d)"
    and "number_hidden_layers d \<le> int (length (t_filters d))"
    and "number_hidden_layers d \<le> int (length (t_strides d))"
    and "2 \<le> length (input_dim d)"
  shows "\<exists>shs. t_reset_shapes d = Inr (d\<lparr>output_shapes := shs\<rparr>) \<and>
           length shs = nat (number_hidden_layers d)"
proof -
  from assms(3,4) have "\<forall>lay \<in> set [0 ..< nat (number_hidden_layers d)].
      lay < length (t_filters d) \<and> lay < length (t_strides d)" by auto
  from t_reset_loop_total [OF assms(1,2) this assms(5), of "[]"] obtain shs where
    "t_reset_loop (t_filters d) (t_strides d) [0 ..< nat (number_hidden_layers d)]
       (input_dim d) [] = Inr shs" "length shs = nat (number_hidden_layers d)" by auto
  then have "t_reset_shapes d = Inr (d\<lparr>output_shapes := shs\<rparr>) \<and>
           length shs = nat (number_hidden_layers d)" by (simp add: t_reset_shapes_def)
  then show ?thesis by blast
qed





section \<open>Removal of a layer\<close>

lemma then_do_Inr: "then_do m f = Inr y \<longleftrightarrow> (\<exists>x. m = Inr x \<and> f x = Inr y)"
  by (cases m) auto

lemma norm_index_bound: "norm_index n i = Some j \<Longrightarrow> j < n"
  by (auto simp add: norm_index_def split: if_splits)

lemma length_remove_nth: "j < length xs \<Longrightarrow> Suc (length (remove_nth j xs)) = length xs"
  by (simp add: remove_nth_def)

lemma set_remove_nth: "set (remove_nth j xs) \<subseteq> set xs"
proof -
  have "set (take j xs) \<subseteq> set xs" by (rule set_take_subset)
  moreover have "set (drop (Suc j) xs) \<subseteq> set xs" by (rule set_drop_subset)
  ultimately show ?thesis by (simp add: remove_nth_def)
qed

lemma list_all_remove_nth: "list_all P xs \<Longrightarrow> list_all P (remove_nth j xs)"
  using set_remove_nth [of j xs] by (auto simp add: list_all_iff)

lemma py_pop_Inr: "py_pop xs i = Inr ys \<Longrightarrow> Suc (length ys) = length xs"
  by (auto simp add: py_pop_def length_remove_nth norm_index_bound split: option.splits)

lemma py_pop_valid:
  "0 \<le> i \<Longrightarrow> i < int (length xs) \<Longrightarrow> py_pop xs i = Inr (remove_nth (nat i) xs)"
  by (simp add: py_pop_def norm_index_def)

lemma reset_shapes_Inr: "reset_shapes d = Inr d' \<Longrightarrow> \<exists>shs. d' = d\<lparr>shapes := shs\<rparr>"
  by (auto simp add: reset_shapes_def then_do_Inr)

lemma conv_remove_layer_Inr:
  assumes "conv_remove_layer d pos = Inr d'"
  shows "number_hidden_layers d' = number_hidden_layers d - 1 \<and>
         Suc (length (filters d')) = length (filters d) \<and>
         Suc (length (strides d')) = length (strides d) \<and>
         Suc (length (act_functions d')) = length (act_functions d) \<and>
         Suc (length (init_functions d')) = length (init_functions d)"
proof -
  from assms obtain fs as ws ss where pops: "py_pop (filters d) pos = Inr fs"
    "py_pop (act_functions d) pos = Inr as" "py_pop (init_functions d) pos = Inr ws"
    "py_pop (strides d) pos = Inr ss"
    and r: "reset_shapes (d\<lparr>filters := fs, act_functions := as, init_functions := ws,
              strides := ss, number_hidden_layers := number_hidden_layers d - 1\<rparr>) = Inr d'"
    by (auto simp add: conv_remove_layer_def then_do_Inr)
  from reset_shapes_Inr [OF r] obtain shs where
    "d' = d\<lparr>filters := fs, act_functions := as, init_functions := ws,
              strides := ss, number_hidden_layers := number_hidden_layers d - 1,
              shapes := shs\<rparr>" by blast
  with pops show ?thesis by (simp add: py_pop_Inr)
qed

lemma conv_remove_layer_total:
  assumes "conv_consistent d" and "0 \<le> pos" and "pos < int (length (filters d))"
  shows "\<exists>d'. conv_remove_layer d pos = Inr d' \<and>
           filters d' = remove_nth (nat pos) (filters d) \<and>
           strides d' = remove_nth (nat pos) (strides d) \<and>
           act_functions d' = remove_nth (nat pos) (act_functions d) \<and>
           init_functions d' = remove_nth (nat pos) (init_functions d)"
proof -
  let ?e = "d\<lparr>filters := remove_nth (nat pos) (filters d),
              act_functions := remove_nth (nat pos) (act_functions d),
              init_functions := remove_nth (nat pos) (init_functions d),
              strides := remove_nth (nat pos) (strides d),
              number_hidden_layers := number_hidden_layers d - 1\<rparr>"
  from assms have j: "nat pos < length (filters d)" "nat pos < length (strides d)"
    by (simp_all add: conv_consistent_def)
  from assms j length_remove_nth [OF j(1)] length_remove_nth [OF j(2)]
  have "\<exists>shs. reset_shapes ?e = Inr (?e\<lparr>shapes := shs\<rparr>)"
    by (intro reset_shapes_total) (simp_all add: conv_consistent_def list_all_remove_nth)
  then obtain shs where "reset_shapes ?e = Inr (?e\<lparr>shapes := shs\<rparr>)" by blast
  with assms show ?thesis
    by (simp add: conv_remove_layer_def conv_consistent_def py_pop_valid)
qed

lemma conv_remove_random_layer_Inr:
  assumes "conv_remove_random_layer d r = Inr (st, d')"
  shows "(st = - 1 \<and> d' = d \<and> number_hidden_layers d \<le> 1) \<or>
         (st = 0 \<and> 1 < number_hidden_layers d \<and>
          number_hidden_layers d' = number_hidden_layers d - 1 \<and>
          Suc (length (filters d')) = length (filters d) \<and>
          Suc (length (strides d')) = length (strides d) \<and>
          Suc (length (act_functions d')) = length (act_functions d) \<and>
          Suc (length (init_functions d')) = length (init_functions d))"
proof (cases "1 < number_hidden_layers d")
  case True
  with assms have "conv_remove_layer d r = Inr d'" and "st = 0"
    by (auto simp add: conv_remove_random_layer_def then_do_Inr split: if_splits)
  with True conv_remove_layer_Inr [of d r d'] show ?thesis by simp
next
  case False
  with assms show ?thesis by (simp add: conv_remove_random_layer_def)
qed

lemma t_reset_shapes_Inr:
  "t_reset_shapes d = Inr d' \<Longrightarrow> \<exists>shs. d' = d\<lparr>output_shapes := shs\<rparr>"
  by (auto simp add: t_reset_shapes_def then_do_Inr)

lemma tconv_remove_layer_Inr:
  assumes "tconv_remove_layer d pos = Inr d'"
  shows "number_hidden_layers d' = number_hidden_layers d - 1 \<and>
         Suc (length (t_filters d')) = length (t_filters d) \<and>
         Suc (length (t_strides d')) = length (t_strides d) \<and>
         Suc (length (act_functions d')) = length (act_functions d) \<and>
         Suc (length (init_functions d')) = length (init_functions d)"
proof -
  from assms obtain fs as ws ss where pops: "py_pop (t_filters d) pos = Inr fs"
    "py_pop (act_functions d) pos = Inr as" "py_pop (init_functions d) pos = Inr ws"
    "py_pop (t_strides d) pos = Inr ss"
    and r: "t_reset_shapes (d\<lparr>t_filters := fs, act_functions := as, init_functions := ws,
              t_strides := ss, number_hidden_layers := number_hidden_layers d - 1\<rparr>) = Inr d'"
    by (auto simp add: tconv_remove_layer_def then_do_Inr)
  from t_reset_shapes_Inr [OF r] obtain shs where
    "d' = d\<lparr>t_filters := fs, act_functions := as, init_functions := ws,
              t_strides := ss, number_hidden_layers := number_hidden_layers d - 1,
              output_shapes := shs\<rparr>" by blast
  with pops show ?thesis by (simp add: py_pop_Inr)
qed

lemma tconv_remove_layer_total:
  assumes "tconv_consistent d" and "0 \<le> pos" and "pos < int (length (t_filters d))"
  shows "\<exists>d'. tconv_remove_layer d pos = Inr d' \<and>
           t_filters d' = remove_nth (nat pos) (t_filters d) \<and>
           t_strides d' = remove_nth (nat pos) (t_strides d) \<and>
           act_functions d' = remove_nth (nat pos) (act_functions d) \<and>
           init_functions d' = remove_nth (nat pos) (init_functions d)"
proof -
  let ?e = "d\<lparr>t_filters := remove_nth (nat pos) (t_filters d),
              act_functions := remove_nth (nat pos) (act_functions d),
              init_functions := remove_nth (nat pos) (init_functions d),
              t_strides := remove_nth (nat pos) (t_strides d),
              number_hidden_layers := number_hidden_layers d - 1\<rparr>"
  from assms have j: "nat pos < length (t_filters d)" "nat pos < length (t_strides d)"
    by (simp_all add: tconv_consistent_def)
  from assms j length_remove_nth [OF j(1)] length_remove_nth [OF j(2)]
  have "\<exists>shs. t_reset_shapes ?e = Inr (?e\<lparr>output_shapes := shs\<rparr>) \<and>
          length shs = nat (number_hidden_layers ?e)"
    by (intro t_reset_shapes_total) (simp_all add: tconv_consistent_def list_all_remove_nth)
  then obtain shs where "t_reset_shapes ?e = Inr (?e\<lparr>output_shapes := shs\<rparr>)" by blast
  with assms show ?thesis
    by (simp add: tconv_remove_layer_def tconv_consistent_def py_pop_valid)
qed

lemma deletable_True: "deletable d pos = Inr True \<Longrightarrow> 1 < number_hidden_layers d"
  by (simp add: deletable_def split: if_splits)

lemma deletable_floor: "number_hidden_layers d \<le> 1 \<Longrightarrow> deletable d pos = Inr False"
  by (simp add: deletable_def)

lemma tconv_remove_random_layer_none:
  "\<forall>pos \<in> set cands. deletable d pos = Inr False \<Longrightarrow>
   tconv_remove_random_layer d cands = Inr (- 1, d)"
  by (induction cands) simp_all

lemma tconv_remove_random_layer_first:
  assumes "\<forall>q \<in> set pre. deletable d q = Inr False" and "deletable d pos = Inr True"
  shows "tconv_remove_random_layer d (pre @ pos # post) =
           then_do (tconv_remove_layer d pos) (\<lambda>d. Inr (0, d))"
  using assms by (induction pre) simp_all

lemma tconv_remove_random_layer_Inr:
  assumes "tconv_remove_random_layer d cands = Inr (st, d')"
  shows "(st = - 1 \<and> d' = d) \<or>
         (st = 0 \<and> 1 < number_hidden_layers d \<and>
          (\<exists>pos \<in> set cands. deletable d pos = Inr True \<and> tconv_remove_layer d pos = Inr d'))"
  using assms
proof (induction cands)
  case Nil
  then show ?case by simp
next
  case (Cons pos cands)
  from Cons.prems obtain ok where ok: "deletable d pos = Inr ok"
    by (auto simp add: then_do_Inr)
  show ?case
  proof (cases ok)
    case True
    with ok Cons.prems have "tconv_remove_layer d pos = Inr d'" "st = 0"
      by (auto simp add: then_do_Inr)
    with ok True deletable_True [of d pos] show ?thesis by auto
  next
    case False
    with ok Cons.prems have "tconv_remove_random_layer d cands = Inr (st, d')" by simp
    from Cons.IH [OF this] show ?thesis by auto
  qed
qed

text \<open>
  What \<^verbatim>\<open>remove_random_layer\<close> does when the shape recomputation runs through. On a
  convolutional descriptor with a layer count of at most 1 it returns \<open>-1\<close> and leaves the
  descriptor as it is; with a larger count, on a consistent descriptor and for any position
  drawn, it returns 0 and the entry at that position is gone from filters, strides,
  activations and initializers, the count being one less and at least 1. On a
  transposed-convolutional descriptor it returns \<open>-1\<close> and leaves the descriptor as it is when
  the count is at most 1 or no candidate passes the test; otherwise, on a consistent
  descriptor, it removes the first candidate that passes, and that one only, and returns 0.
  For both kinds a call that returns has returned \<open>-1\<close> without a change or 0 with one
  layer less, and a count of at least 1 stays at least 1.
\<close>

lemma remove_random_layer_returns:
  fixes d :: conv_descriptor and t :: tconv_descriptor
  shows
  "(number_hidden_layers d \<le> 1 \<longrightarrow> conv_remove_random_layer d r = Inr (- 1, d)) \<and>
   (1 < number_hidden_layers d \<and> conv_consistent d \<and> 0 \<le> r \<and> r < int (length (filters d)) \<longrightarrow>
      (\<exists>d'. conv_remove_random_layer d r = Inr (0, d') \<and>
         number_hidden_layers d' = number_hidden_layers d - 1 \<and>
         1 \<le> number_hidden_layers d' \<and>
         filters d' = remove_nth (nat r) (filters d) \<and>
         strides d' = remove_nth (nat r) (strides d) \<and>
         act_functions d' = remove_nth (nat r) (act_functions d) \<and>
         init_functions d' = remove_nth (nat r) (init_functions d))) \<and>
   (\<forall>st d'. conv_remove_random_layer d r = Inr (st, d') \<and> 1 \<le> number_hidden_layers d \<longrightarrow>
      1 \<le> number_hidden_layers d' \<and>
      (st = - 1 \<and> d' = d \<or>
       st = 0 \<and> number_hidden_layers d' = number_hidden_layers d - 1 \<and>
         Suc (length (filters d')) = length (filters d))) \<and>
   (number_hidden_layers t \<le> 1 \<or> (\<forall>q \<in> set cands. deletable t q = Inr False) \<longrightarrow>
      tconv_remove_random_layer t cands = Inr (- 1, t)) \<and>
   (tconv_consistent t \<and> (\<forall>q \<in> set pre. deletable t q = Inr False) \<and>
    deletable t pos = Inr True \<and> 0 \<le> pos \<and> pos < int (length (t_filters t)) \<longrightarrow>
      (\<exists>t'. tconv_remove_random_layer t (pre @ pos # post) = Inr (0, t') \<and>
         number_hidden_layers t' = number_hidden_layers t - 1 \<and>
         1 \<le> number_hidden_layers t' \<and>
         t_filters t' = remove_nth (nat pos) (t_filters t) \<and>
         t_strides t' = remove_nth (nat pos) (t_strides t) \<and>
         act_functions t' = remove_nth (nat pos) (act_functions t) \<and>
         init_functions t' = remove_nth (nat pos) (init_functions t))) \<and>
   (\<forall>st t'. tconv_remove_random_layer t cands = Inr (st, t') \<and> 1 \<le> number_hidden_layers t \<longrightarrow>
      1 \<le> number_hidden_layers t' \<and>
      (st = - 1 \<and> t' = t \<or>
       st = 0 \<and> number_hidden_layers t' = number_hidden_layers t - 1 \<and>
         Suc (length (t_filters t')) = length (t_filters t)))"
proof (intro conjI allI impI)
  assume "number_hidden_layers d \<le> 1"
  then show "conv_remove_random_layer d r = Inr (- 1, d)"
    by (simp add: conv_remove_random_layer_def)
next
  assume h: "1 < number_hidden_layers d \<and> conv_consistent d \<and> 0 \<le> r \<and>
    r < int (length (filters d))"
  then obtain d' where d': "conv_remove_layer d r = Inr d'"
    "filters d' = remove_nth (nat r) (filters d)"
    "strides d' = remove_nth (nat r) (strides d)"
    "act_functions d' = remove_nth (nat r) (act_functions d)"
    "init_functions d' = remove_nth (nat r) (init_functions d)"
    using conv_remove_layer_total [of d r] by blast
  from h have "filters d \<noteq> []" by auto
  with h d' conv_remove_layer_Inr [OF d'(1)]
  have "conv_remove_random_layer d r = Inr (0, d') \<and>
         number_hidden_layers d' = number_hidden_layers d - 1 \<and>
         1 \<le> number_hidden_layers d' \<and>
         filters d' = remove_nth (nat r) (filters d) \<and>
         strides d' = remove_nth (nat r) (strides d) \<and>
         act_functions d' = remove_nth (nat r) (act_functions d) \<and>
         init_functions d' = remove_nth (nat r) (init_functions d)"
    by (simp add: conv_remove_random_layer_def)
  then show "\<exists>d'. conv_remove_random_layer d r = Inr (0, d') \<and>
         number_hidden_layers d' = number_hidden_layers d - 1 \<and>
         1 \<le> number_hidden_layers d' \<and>
         filters d' = remove_nth (nat r) (filters d) \<and>
         strides d' = remove_nth (nat r) (strides d) \<and>
         act_functions d' = remove_nth (nat r) (act_functions d) \<and>
         init_functions d' = remove_nth (nat r) (init_functions d)" by blast
next
  fix st d'
  assume h: "conv_remove_random_layer d r = Inr (st, d') \<and> 1 \<le> number_hidden_layers d"
  with conv_remove_random_layer_Inr [of d r st d']
  show "1 \<le> number_hidden_layers d'" by auto
  from h conv_remove_random_layer_Inr [of d r st d']
  show "st = - 1 \<and> d' = d \<or>
       st = 0 \<and> number_hidden_layers d' = number_hidden_layers d - 1 \<and>
         Suc (length (filters d')) = length (filters d)" by auto
next
  assume "number_hidden_layers t \<le> 1 \<or> (\<forall>q \<in> set cands. deletable t q = Inr False)"
  then have "\<forall>q \<in> set cands. deletable t q = Inr False"
    using deletable_floor by blast
  then show "tconv_remove_random_layer t cands = Inr (- 1, t)"
    by (rule tconv_remove_random_layer_none)
next
  assume h: "tconv_consistent t \<and> (\<forall>q \<in> set pre. deletable t q = Inr False) \<and>
    deletable t pos = Inr True \<and> 0 \<le> pos \<and> pos < int (length (t_filters t))"
  then obtain t' where t': "tconv_remove_layer t pos = Inr t'"
    "t_filters t' = remove_nth (nat pos) (t_filters t)"
    "t_strides t' = remove_nth (nat pos) (t_strides t)"
    "act_functions t' = remove_nth (nat pos) (act_functions t)"
    "init_functions t' = remove_nth (nat pos) (init_functions t)"
    using tconv_remove_layer_total [of t pos] by blast
  from h have "1 < number_hidden_layers t" using deletable_True by blast
  with h t' tconv_remove_layer_Inr [OF t'(1)]
  have "tconv_remove_random_layer t (pre @ pos # post) = Inr (0, t') \<and>
         number_hidden_layers t' = number_hidden_layers t - 1 \<and>
         1 \<le> number_hidden_layers t' \<and>
         t_filters t' = remove_nth (nat pos) (t_filters t) \<and>
         t_strides t' = remove_nth (nat pos) (t_strides t) \<and>
         act_functions t' = remove_nth (nat pos) (act_functions t) \<and>
         init_functions t' = remove_nth (nat pos) (init_functions t)"
    by (simp add: tconv_remove_random_layer_first)
  then show "\<exists>t'. tconv_remove_random_layer t (pre @ pos # post) = Inr (0, t') \<and>
         number_hidden_layers t' = number_hidden_layers t - 1 \<and>
         1 \<le> number_hidden_layers t' \<and>
         t_filters t' = remove_nth (nat pos) (t_filters t) \<and>
         t_strides t' = remove_nth (nat pos) (t_strides t) \<and>
         act_functions t' = remove_nth (nat pos) (act_functions t) \<and>
         init_functions t' = remove_nth (nat pos) (init_functions t)" by blast
next
  fix st t'
  assume h: "tconv_remove_random_layer t cands = Inr (st, t') \<and> 1 \<le> number_hidden_layers t"
  from h tconv_remove_random_layer_Inr [of t cands st t'] tconv_remove_layer_Inr [of t _ t']
  show "1 \<le> number_hidden_layers t'" by auto
  from h tconv_remove_random_layer_Inr [of t cands st t'] tconv_remove_layer_Inr [of t _ t']
  show "st = - 1 \<and> t' = t \<or>
       st = 0 \<and> number_hidden_layers t' = number_hidden_layers t - 1 \<and>
         Suc (length (t_filters t')) = length (t_filters t)" by auto
qed

lemma tconv_large_consistent: "tconv_consistent tconv_large"
  by (simp add: tconv_consistent_def tconv_large_def)

lemma tconv_large_deletable:
  "deletable tconv_large 1 = Inr False" "deletable tconv_large 0 = Inr True"
  by (simp_all add: deletable_def tconv_large_def py_index_def norm_index_def)

lemma tconv_example_not_deletable:
  "\<forall>q \<in> set [1, 0]. deletable tconv_example q = Inr False"
  by (simp add: deletable_def tconv_example_def py_index_def norm_index_def)

lemma remove_random_layer_returns_example:
  "conv_remove_random_layer conv_small 0 = Inr (- 1, conv_small) \<and>
   (\<exists>d'. conv_remove_random_layer conv_example 1 = Inr (0, d') \<and>
      number_hidden_layers d' = 1 \<and> filters d' = [Flat [3, 3, 8]] \<and>
      strides d' = [Flat [1, 1, 1]]) \<and>
   tconv_remove_random_layer tconv_example [1, 0] = Inr (- 1, tconv_example) \<and>
   (\<exists>t'. tconv_remove_random_layer tconv_large [1, 0, 2] = Inr (0, t') \<and>
      number_hidden_layers t' = 2 \<and> t_filters t' = [[2, 2, 8], [2, 2, 3]] \<and>
      t_strides t' = [[3, 3, 1], [3, 3, 1]])"
proof -
  have c1: "number_hidden_layers conv_small \<le> 1" by (simp add: conv_small_def)
  have c2: "1 < number_hidden_layers conv_example \<and> conv_consistent conv_example \<and>
      (0::int) \<le> 1 \<and> 1 < int (length (filters conv_example))"
    by (simp add: conv_example_consistent) (simp add: conv_example_def)
  have t2: "tconv_consistent tconv_large \<and> (\<forall>q \<in> set [1]. deletable tconv_large q = Inr False) \<and>
      deletable tconv_large 0 = Inr True \<and> (0::int) \<le> 0 \<and>
      0 < int (length (t_filters tconv_large))"
    by (simp add: tconv_large_consistent tconv_large_deletable) (simp add: tconv_large_def)
  from c1 remove_random_layer_returns [of conv_small 0 tconv_example "[1, 0]" "[]" 0 "[]"]
    tconv_example_not_deletable
  have a: "conv_remove_random_layer conv_small 0 = Inr (- 1, conv_small)"
    and b: "tconv_remove_random_layer tconv_example [1, 0] = Inr (- 1, tconv_example)"
    by blast+
  from c2 t2 remove_random_layer_returns [of conv_example 1 tconv_large "[]" "[1]" 0 "[2]"]
  obtain d' t' where "conv_remove_random_layer conv_example 1 = Inr (0, d')"
    "number_hidden_layers d' = number_hidden_layers conv_example - 1"
    "filters d' = remove_nth (nat 1) (filters conv_example)"
    "strides d' = remove_nth (nat 1) (strides conv_example)"
    "tconv_remove_random_layer tconv_large ([1] @ 0 # [2]) = Inr (0, t')"
    "number_hidden_layers t' = number_hidden_layers tconv_large - 1"
    "t_filters t' = remove_nth (nat 0) (t_filters tconv_large)"
    "t_strides t' = remove_nth (nat 0) (t_strides tconv_large)"
    by blast
  then have "conv_remove_random_layer conv_example 1 = Inr (0, d') \<and>
      number_hidden_layers d' = 1 \<and> filters d' = [Flat [3, 3, 8]] \<and>
      strides d' = [Flat [1, 1, 1]]"
    and "tconv_remove_random_layer tconv_large [1, 0, 2] = Inr (0, t') \<and>
      number_hidden_layers t' = 2 \<and> t_filters t' = [[2, 2, 8], [2, 2, 3]] \<and>
      t_strides t' = [[3, 3, 1], [3, 3, 1]]"
    by (simp_all add: conv_example_def tconv_large_def remove_nth_def)
  with a b show ?thesis by blast
qed

text \<open>
  Claim C8. \<^verbatim>\<open>ConvDescriptor.random_init\<close> with two layers allowed, a first draw of 1 and
  two convolutions accepted builds a genome of layer count 2 whose entries are pairs. On it
  \<^verbatim>\<open>remove_random_layer\<close>, whichever position it draws, pops the entry and lowers the
  count to 1, and then raises in \<^verbatim>\<open>reset_shapes\<close>, which cannot read the pair that
  remains: the call does not return 0.
\<close>

theorem conv_remove_random_layer_raises:
  "\<exists>g. conv_random_init conv_fresh [28, 28, 3] [20] 2 2 3 None 1 (\<lambda>i. plain_conv_draw) False
         = Inr g \<and>
       number_hidden_layers g = 2 \<and>
       filters g = [Paired [2, 2, 3] None, Paired [2, 2, 3] None] \<and>
       strides g = [Paired [1, 1, 1] None, Paired [1, 1, 1] None] \<and>
       shapes g = [[27, 27, 3], [26, 26, 3]] \<and>
       conv_remove_random_layer g 0 = Inl ValueError \<and>
       conv_remove_random_layer g 1 = Inl ValueError"
  by (simp add: conv_random_init_def conv_fresh_def plain_conv_draw_def plain_step
      too_small_def py_index_0 py_index_1 Let_def max64_def conv_remove_random_layer_def
      conv_remove_layer_def py_pop_def norm_index_def remove_nth_def reset_shapes_def
      py_index_def)

section \<open>Random initialization of a transposed-convolutional descriptor\<close>

lemma reached_eval:
  "reached [m, h, w, c] [o0, o1, o2] = Inr (sint o0 \<le> sint h \<and> sint o1 \<le> sint w)"
  by (simp add: reached_def py_index_def norm_index_def)

lemma tconv_init_loop_step:
  assumes "i < 300" and "2 \<le> max_stride" and "max_stride \<le> 2 ^ 63"
    and "3 \<le> max_filter" and "max_filter \<le> 2 ^ 63"
    and "output_dim d = [o0, o1, o2]"
  shows "tconv_init_loop rnd max_stride max_filter d [m, h, w, c] i =
     (let s = of_int (t_stride (rnd i)); f = of_int (t_filter (rnd i));
          ch = of_int (t_channel (rnd i));
          h' = (h - 1) * s + f; w' = (w - 1) * s + f;
          d1 = d\<lparr>t_strides := t_strides d @ [[s, s, 1]],
                t_filters := t_filters d @ [[f, f, ch]],
                output_shapes := output_shapes d @ [[- 1, h', w', ch]],
                init_functions := init_functions d @ [t_init (rnd i)],
                act_functions := act_functions d @ [t_act (rnd i)]\<rparr>
      in if sint o0 \<le> sint h' \<and> sint o1 \<le> sint w' then
           Inr (True, d1\<lparr>t_filters := t_filters d @ [[f, f, o2]],
                        output_shapes := output_shapes d @ [[- 1, h', w', o2]],
                        number_hidden_layers := int i + 1\<rparr>)
         else tconv_init_loop rnd max_stride max_filter d1 [- 1, h', w', ch] (i + 1))"
  using assms
  by (subst tconv_init_loop.simps)
     (simp add: Let_def compute_output_expansive reached_eval py_index_def py_setitem_def
        norm_index_def)

text \<open>
  Below the target, a layer of stride at least 1 and filter size at least 2 makes a positive
  size larger by at least one, and under the bound on the draws nothing wraps.
\<close>

lemma grow_without_wrap:
  assumes "1 \<le> sint h" and "sint h \<le> 27"
    and "1 \<le> s" and "s < max_stride" and "2 \<le> f" and "f < max_filter"
    and "26 * (max_stride - 1) + (max_filter - 1) < 2 ^ 63"
  shows "sint ((h - 1) * of_int s + of_int f :: int64) = (sint h - 1) * s + f"
    and "sint h + 1 \<le> (sint h - 1) * s + f"
proof -
  from assms have "(sint h - 1) * s \<le> 26 * (max_stride - 1)"
    by (intro mult_mono) simp_all
  moreover from assms have "0 \<le> (sint h - 1) * s" by simp
  moreover from assms have "(sint h - 1) * 1 \<le> (sint h - 1) * s"
    by (intro mult_left_mono) simp_all
  ultimately have r: "in64 ((sint h - 1) * s + f)" "sint h + 1 \<le> (sint h - 1) * s + f"
    using assms by (simp_all add: in64_def)
  from assms have "in64 s" "in64 f" by (simp_all add: in64_def)
  then have "sint (of_int s :: int64) = s" "sint (of_int f :: int64) = f"
    by (simp_all add: sint_of_int64)
  with r(1) sint_expansive [of h "of_int s" "of_int f"]
  show "sint ((h - 1) * of_int s + of_int f :: int64) = (sint h - 1) * s + f" by simp
  from r(2) show "sint h + 1 \<le> (sint h - 1) * s + f" .
qed

lemma tconv_init_loop_reaches:
  assumes "2 \<le> max_stride" and "3 \<le> max_filter"
    and "26 * (max_stride - 1) + (max_filter - 1) < 2 ^ 63"
    and "\<forall>j. tconv_draw_ok max_stride max_filter (rnd j)"
  shows "output_dim d = [28, 28, 3] \<Longrightarrow> 1 \<le> sint h \<Longrightarrow> sint h \<le> 27 \<Longrightarrow> i + n \<le> 300 \<Longrightarrow>
         28 - sint h \<le> int n \<Longrightarrow>
         \<exists>d' hh. tconv_init_loop rnd max_stride max_filter d [m, h, h, c] i = Inr (True, d') \<and>
           int i < number_hidden_layers d' \<and> number_hidden_layers d' \<le> int i + int n \<and>
           t_filters d' \<noteq> [] \<and> last (t_filters d') ! 2 = 3 \<and>
           output_shapes d' \<noteq> [] \<and> last (output_shapes d') = [- 1, hh, hh, 3] \<and>
           28 \<le> sint hh \<and>
           input_dim d' = input_dim d \<and> output_dim d' = output_dim d \<and>
           int (length (t_filters d')) =
             int (length (t_filters d)) + number_hidden_layers d' - int i"
proof (induction n arbitrary: d h i m c)
  case 0
  then show ?case by simp
next
  case (Suc k)
  let ?s = "of_int (t_stride (rnd i)) :: int64" and ?f = "of_int (t_filter (rnd i)) :: int64"
    and ?ch = "of_int (t_channel (rnd i)) :: int64"
  let ?h = "(h - 1) * ?s + ?f"
  let ?d1 = "d\<lparr>t_strides := t_strides d @ [[?s, ?s, 1]],
                t_filters := t_filters d @ [[?f, ?f, ?ch]],
                output_shapes := output_shapes d @ [[- 1, ?h, ?h, ?ch]],
                init_functions := init_functions d @ [t_init (rnd i)],
                act_functions := act_functions d @ [t_act (rnd i)]\<rparr>"
  from assms(4) have sf: "1 \<le> t_stride (rnd i)" "t_stride (rnd i) < max_stride"
    "2 \<le> t_filter (rnd i)" "t_filter (rnd i) < max_filter"
    by (simp_all add: tconv_draw_ok_def)
  from assms(1,2,3) have bounds: "max_stride \<le> 2 ^ 63" "max_filter \<le> 2 ^ 63" by simp_all
  from Suc.prems have i: "i < 300" by simp
  note g = grow_without_wrap [OF Suc.prems(2,3) sf assms(3)]
  note step = tconv_init_loop_step [OF i assms(1) bounds(1) assms(2) bounds(2) Suc.prems(1),
      of rnd m h h c]
  have s28: "sint (28 :: int64) = 28" by simp
  show ?case
  proof (cases "28 \<le> sint ?h")
    case True
    with step s28 have "tconv_init_loop rnd max_stride max_filter d [m, h, h, c] i =
        Inr (True, ?d1\<lparr>t_filters := t_filters d @ [[?f, ?f, 3]],
                        output_shapes := output_shapes d @ [[- 1, ?h, ?h, 3]],
                        number_hidden_layers := int i + 1\<rparr>)"
      by (simp add: Let_def)
    with True show ?thesis by simp
  next
    case False
    with step s28 have rec: "tconv_init_loop rnd max_stride max_filter d [m, h, h, c] i =
        tconv_init_loop rnd max_stride max_filter ?d1 [- 1, ?h, ?h, ?ch] (i + 1)"
      by (simp add: Let_def)
    from False have lt: "sint ?h \<le> 27" by simp
    from g have ge: "sint h + 1 \<le> sint ?h" by simp
    with Suc.prems(5) have k: "28 - sint ?h \<le> int k" by linarith
    have "output_dim ?d1 = [28, 28, 3]" using Suc.prems(1) by simp
    moreover have "1 \<le> sint ?h" using ge Suc.prems(2) by simp
    moreover have "(i + 1) + k \<le> 300" using Suc.prems(4) by simp
    ultimately obtain d' hh where
      "tconv_init_loop rnd max_stride max_filter ?d1 [- 1, ?h, ?h, ?ch] (i + 1) = Inr (True, d')"
      "int (i + 1) < number_hidden_layers d'" "number_hidden_layers d' \<le> int (i + 1) + int k"
      "t_filters d' \<noteq> []" "last (t_filters d') ! 2 = 3"
      "output_shapes d' \<noteq> []" "last (output_shapes d') = [- 1, hh, hh, 3]"
      "28 \<le> sint hh"
      "input_dim d' = input_dim ?d1" "output_dim d' = output_dim ?d1"
      "int (length (t_filters d')) =
         int (length (t_filters ?d1)) + number_hidden_layers d' - int (i + 1)"
      using Suc.IH [of ?d1 ?h "i + 1" "- 1" ?ch] k lt by blast
    with rec show ?thesis by (intro exI [of _ d'] exI [of _ hh]) simp
  qed
qed

text \<open>
  Claim C5, as amended. Let the input shape be \<open>(7, 7, k)\<close>, the target \<open>(28, 28, 3)\<close>, the
  stride bound at least 2 and the filter bound at least 3, let every draw lie in the range that
  its \<^verbatim>\<open>randint\<close> call has, and let the bounds be small enough for a size below the target
  to pass one layer without leaving the 64-bit integers:
  \<open>26 * (max_stride - 1) + (max_filter - 1) < 2 ^ 63\<close>. Then
  \<^verbatim>\<open>TConvDescriptor.random_init\<close> raises nothing and leaves its loop by the \<^verbatim>\<open>break\<close>,
  after at most 21 and hence fewer than 300 attempts; the layer count is the number of attempts
  made, the channel parameter of the last filter is 3, and the last cached shape has the channel
  count 3 and both spatial sizes at least 28.
\<close>

theorem tconv_random_init_reaches_target:
  assumes "2 \<le> max_stride" and "3 \<le> max_filter"
    and "26 * (max_stride - 1) + (max_filter - 1) < 2 ^ 63"
    and "\<forall>j. tconv_draw_ok max_stride max_filter (rnd j)"
  shows "\<exists>d' hh ww.
           tconv_init_loop rnd max_stride max_filter
             (d\<lparr>input_dim := [7, 7, k], output_dim := [28, 28, 3],
                t_strides := [], t_filters := [],
                init_functions := [], act_functions := []\<rparr>) [- 1, 7, 7, k] 0 =
             Inr (True, d') \<and>
           tconv_random_init d [7, 7, k] [28, 28, 3] max_stride max_filter no_batch rnd bn_draw =
             Inr (if no_batch = Some False then d'\<lparr>batch_norm := bn_draw\<rparr> else d') \<and>
           1 \<le> number_hidden_layers d' \<and> number_hidden_layers d' \<le> 21 \<and>
           number_hidden_layers d' \<le> 300 \<and>
           int (length (t_filters d')) = number_hidden_layers d' \<and>
           last (t_filters d') ! 2 = 3 \<and>
           last (output_shapes d') = [- 1, hh, ww, 3] \<and> 28 \<le> sint hh \<and> 28 \<le> sint ww"
proof -
  let ?d0 = "d\<lparr>input_dim := [7, 7, k], output_dim := [28, 28, 3],
                t_strides := [], t_filters := [],
                init_functions := [], act_functions := []\<rparr>"
  have "output_dim ?d0 = [28, 28, 3]" by simp
  moreover have "1 \<le> sint (7 :: int64)" "sint (7 :: int64) \<le> 27" "0 + 21 \<le> (300::nat)"
    "28 - sint (7 :: int64) \<le> int 21"
    by simp_all
  ultimately obtain d' hh where r:
    "tconv_init_loop rnd max_stride max_filter ?d0 [- 1, 7, 7, k] 0 = Inr (True, d')"
    "int 0 < number_hidden_layers d'" "number_hidden_layers d' \<le> int 0 + int 21"
    "last (t_filters d') ! 2 = 3" "last (output_shapes d') = [- 1, hh, hh, 3]"
    "28 \<le> sint hh"
    "int (length (t_filters d')) = int (length (t_filters ?d0)) + number_hidden_layers d' - int 0"
    using tconv_init_loop_reaches [OF assms, of ?d0 7 0 21 "- 1" k] by blast
  from r(1) have "tconv_random_init d [7, 7, k] [28, 28, 3] max_stride max_filter no_batch
      rnd bn_draw = Inr (if no_batch = Some False then d'\<lparr>batch_norm := bn_draw\<rparr> else d')"
    by (simp add: tconv_random_init_def del: tconv_init_loop.simps)
  with r show ?thesis
    by (intro exI [of _ d'] exI [of _ hh] exI [of _ hh]) simp
qed

theorem tconv_random_init_reaches_target_witness:
  "(2::int) \<le> 2 \<and> (3::int) \<le> 3 \<and> (26::int) * (2 - 1) + (3 - 1) < 2 ^ 63 \<and>
   (\<forall>j::nat. tconv_draw_ok 2 3 slow_tconv_draw) \<and>
   (\<exists>d' hh ww.
      tconv_random_init tconv_fresh [7, 7, 50] [28, 28, 3] 2 3 None (\<lambda>j. slow_tconv_draw) False =
        Inr d' \<and>
      1 \<le> number_hidden_layers d' \<and> number_hidden_layers d' \<le> 300 \<and>
      last (t_filters d') ! 2 = 3 \<and>
      last (output_shapes d') = [- 1, hh, ww, 3] \<and> 28 \<le> sint hh \<and> 28 \<le> sint ww)"
proof -
  have ok: "\<forall>j::nat. tconv_draw_ok 2 3 slow_tconv_draw"
    by (simp add: tconv_draw_ok_def slow_tconv_draw_def)
  have b: "(26::int) * (2 - 1) + (3 - 1) < 2 ^ 63" by simp
  from tconv_random_init_reaches_target [where max_stride = 2 and max_filter = 3
      and rnd = "\<lambda>j. slow_tconv_draw" and d = tconv_fresh and k = 50 and no_batch = None
      and bn_draw = False, OF _ _ b ok]
  obtain d' hh ww where
    "tconv_random_init tconv_fresh [7, 7, 50] [28, 28, 3] 2 3 None (\<lambda>j. slow_tconv_draw) False =
       Inr (if None = Some False then d'\<lparr>batch_norm := False\<rparr> else d')"
    "1 \<le> number_hidden_layers d'" "number_hidden_layers d' \<le> 300"
    "last (t_filters d') ! 2 = 3"
    "last (output_shapes d') = [- 1, hh, ww, 3]" "28 \<le> sint hh" "28 \<le> sint ww"
    by auto
  then have "\<exists>d' hh ww.
      tconv_random_init tconv_fresh [7, 7, 50] [28, 28, 3] 2 3 None (\<lambda>j. slow_tconv_draw) False =
        Inr d' \<and>
      1 \<le> number_hidden_layers d' \<and> number_hidden_layers d' \<le> 300 \<and>
      last (t_filters d') ! 2 = 3 \<and>
      last (output_shapes d') = [- 1, hh, ww, 3] \<and> 28 \<le> sint hh \<and> 28 \<le> sint ww"
    by auto
  with ok show ?thesis by simp
qed

text \<open>
  Without the bound on the draws the loop can run out of attempts. Under the stride bound
  \<open>2 ^ 62\<close> the stride \<open>2 ^ 61\<close> is a draw that \<^verbatim>\<open>randint\<close> can return; from the size 7 it
  gives \<open>6 * 2 ^ 61 + 2\<close>, which in 64-bit arithmetic is \<open>- (2 ^ 62) + 2\<close>. From a negative size
  that far down, layers of stride 1 and filter size 2 add one each, and the remaining 299
  attempts end below the target: the loop ends without the \<^verbatim>\<open>break\<close>, and the layer count
  is not set.
\<close>

lemma slow_step_size:
  assumes "sint h < 27"
  shows "sint ((h - 1) * of_int 1 + of_int 2 :: int64) = sint h + 1"
proof -
  have "- (2 ^ 63) \<le> sint h" using sint_ge [of h] by simp
  with assms have "in64 (sint h + 1)" by (simp add: in64_def)
  then have "sint (word_of_int (sint h + 1) :: int64) = sint h + 1" by (rule sint_of_int64)
  moreover have "(h - 1) * of_int 1 + of_int 2 = (word_of_int (sint h + 1) :: int64)" by simp
  ultimately show ?thesis by (simp only:)
qed

lemma tconv_init_loop_exhausts:
  "output_dim d = [28, 28, 3] \<Longrightarrow> 1 \<le> i \<Longrightarrow> i + n = 300 \<Longrightarrow> sint h + int n < 28 \<Longrightarrow>
   output_shapes d \<noteq> [] \<Longrightarrow> sint (last (output_shapes d) ! 1) < 28 \<Longrightarrow>
   \<exists>d'. tconv_init_loop wrap_draws (2 ^ 62) 3 d [m, h, h, c] i = Inr (False, d') \<and>
     number_hidden_layers d' = number_hidden_layers d \<and>
     length (t_filters d') = length (t_filters d) + n \<and>
     output_shapes d' \<noteq> [] \<and> sint (last (output_shapes d') ! 1) < 28"
proof (induction n arbitrary: d h i m c)
  case 0
  then have "i = 300" by simp
  then have "tconv_init_loop wrap_draws (2 ^ 62) 3 d [m, h, h, c] i = Inr (False, d)"
    by (subst tconv_init_loop.simps) simp
  with 0 show ?case by simp
next
  case (Suc k)
  let ?h = "(h - 1) * of_int 1 + of_int 2 :: int64"
  let ?d1 = "d\<lparr>t_strides := t_strides d @ [[of_int 1, of_int 1, 1]],
                t_filters := t_filters d @ [[of_int 2, of_int 2, of_int 40]],
                output_shapes := output_shapes d @ [[- 1, ?h, ?h, of_int 40]],
                init_functions := init_functions d @ [Some RandomUniform],
                act_functions := act_functions d @ [Some Relu]\<rparr>"
  from Suc.prems have i: "i < 300" "i \<noteq> 0" by simp_all
  from Suc.prems have "sint h < 27" by simp
  then have sz: "sint ?h = sint h + 1" by (rule slow_step_size)
  with Suc.prems have low: "\<not> 28 \<le> sint ?h" by simp
  have s28: "sint (28 :: int64) = 28" by simp
  have draw: "wrap_draws i = slow_tconv_draw" using i by (simp add: wrap_draws_def)
  have "tconv_init_loop wrap_draws (2 ^ 62) 3 d [m, h, h, c] i =
      tconv_init_loop wrap_draws (2 ^ 62) 3 ?d1 [- 1, ?h, ?h, of_int 40] (i + 1)"
    using tconv_init_loop_step [OF i(1) _ _ _ _ Suc.prems(1), of "2 ^ 62" 3 wrap_draws m h h c]
      low s28
    by (simp add: Let_def draw slow_tconv_draw_def del: of_int_numeral of_int_1)
  moreover have "\<exists>d'. tconv_init_loop wrap_draws (2 ^ 62) 3 ?d1 [- 1, ?h, ?h, of_int 40] (i + 1) =
        Inr (False, d') \<and>
      number_hidden_layers d' = number_hidden_layers ?d1 \<and>
      length (t_filters d') = length (t_filters ?d1) + k \<and>
      output_shapes d' \<noteq> [] \<and> sint (last (output_shapes d') ! 1) < 28"
    using Suc.prems sz low by (intro Suc.IH) simp_all
  ultimately show ?case by (simp del: of_int_numeral of_int_1)
qed

lemma wrapped_first_size: "sint ((7 - 1) * of_int (2 ^ 61) + of_int 2 :: int64) = - (2 ^ 62) + 2"
  by simp

lemma tconv_wrapped_run:
  "\<exists>d'. tconv_init_loop wrap_draws (2 ^ 62) 3
          (tconv_fresh\<lparr>input_dim := [7, 7, 50], output_dim := [28, 28, 3],
             t_strides := [], t_filters := [],
             init_functions := [], act_functions := []\<rparr>) [- 1, 7, 7, 50] 0 = Inr (False, d') \<and>
        number_hidden_layers d' = 2 \<and> length (t_filters d') = 300 \<and>
        sint (last (output_shapes d') ! 1) < 28"
proof -
  let ?d0 = "tconv_fresh\<lparr>input_dim := [7, 7, 50], output_dim := [28, 28, 3],
             t_strides := [], t_filters := [],
             init_functions := [], act_functions := []\<rparr>"
  let ?h = "(7 - 1) * of_int (2 ^ 61) + of_int 2 :: int64"
  let ?d1 = "?d0\<lparr>t_strides := t_strides ?d0 @ [[of_int (2 ^ 61), of_int (2 ^ 61), 1]],
                t_filters := t_filters ?d0 @ [[of_int 2, of_int 2, of_int 40]],
                output_shapes := output_shapes ?d0 @ [[- 1, ?h, ?h, of_int 40]],
                init_functions := init_functions ?d0 @ [Some RandomUniform],
                act_functions := act_functions ?d0 @ [Some Relu]\<rparr>"
  have sz: "sint ?h = - (2 ^ 62) + 2" by (rule wrapped_first_size)
  then have low: "\<not> 28 \<le> sint ?h" by simp
  have s28: "sint (28 :: int64) = 28" by simp
  have out: "output_dim ?d0 = [28, 28, 3]" by simp
  have "tconv_init_loop wrap_draws (2 ^ 62) 3 ?d0 [- 1, 7, 7, 50] 0 =
      tconv_init_loop wrap_draws (2 ^ 62) 3 ?d1 [- 1, ?h, ?h, of_int 40] (0 + 1)"
    using tconv_init_loop_step [OF _ _ _ _ _ out, of 0 "2 ^ 62" 3 wrap_draws "- 1" 7 7 50]
      low s28
    by (simp add: Let_def wrap_draws_def big_tconv_draw_def
          del: of_int_numeral of_int_1 of_int_power)
  moreover have "\<exists>d'. tconv_init_loop wrap_draws (2 ^ 62) 3 ?d1 [- 1, ?h, ?h, of_int 40] (0 + 1) =
        Inr (False, d') \<and>
      number_hidden_layers d' = number_hidden_layers ?d1 \<and>
      length (t_filters d') = length (t_filters ?d1) + 299 \<and>
      output_shapes d' \<noteq> [] \<and> sint (last (output_shapes d') ! 1) < 28"
    using sz low by (intro tconv_init_loop_exhausts) simp_all
  moreover have "number_hidden_layers ?d1 = 2" by (simp add: tconv_fresh_def)
  moreover have "length (t_filters ?d1) + 299 = 300" by simp
  ultimately show ?thesis by (simp only:) blast
qed

theorem tconv_random_init_exhausts_counterexample:
  "(2::int) \<le> 2 ^ 62 \<and> (3::int) \<le> 3 \<and>
   tconv_draw_ok (2 ^ 62) 3 big_tconv_draw \<and> tconv_draw_ok (2 ^ 62) 3 slow_tconv_draw \<and>
   \<not> isl (tconv_init_loop wrap_draws (2 ^ 62) 3
          (tconv_fresh\<lparr>input_dim := [7, 7, 50], output_dim := [28, 28, 3],
             t_strides := [], t_filters := [],
             init_functions := [], act_functions := []\<rparr>) [- 1, 7, 7, 50] 0) \<and>
   \<not> fst (projr (tconv_init_loop wrap_draws (2 ^ 62) 3
          (tconv_fresh\<lparr>input_dim := [7, 7, 50], output_dim := [28, 28, 3],
             t_strides := [], t_filters := [],
             init_functions := [], act_functions := []\<rparr>) [- 1, 7, 7, 50] 0)) \<and>
   \<not> isl (tconv_random_init tconv_fresh [7, 7, 50] [28, 28, 3] (2 ^ 62) 3 None wrap_draws False) \<and>
   number_hidden_layers
     (projr (tconv_random_init tconv_fresh [7, 7, 50] [28, 28, 3] (2 ^ 62) 3 None wrap_draws False))
     = 2 \<and>
   length (t_filters
     (projr (tconv_random_init tconv_fresh [7, 7, 50] [28, 28, 3] (2 ^ 62) 3 None wrap_draws False)))
     = 300 \<and>
   sint (last (output_shapes
     (projr (tconv_random_init tconv_fresh [7, 7, 50] [28, 28, 3] (2 ^ 62) 3 None wrap_draws False)))
     ! 1) < 28"
proof -
  from tconv_wrapped_run obtain d' where r:
    "tconv_init_loop wrap_draws (2 ^ 62) 3
          (tconv_fresh\<lparr>input_dim := [7, 7, 50], output_dim := [28, 28, 3],
             t_strides := [], t_filters := [],
             init_functions := [], act_functions := []\<rparr>) [- 1, 7, 7, 50] 0 = Inr (False, d')"
    "number_hidden_layers d' = 2" "length (t_filters d') = 300"
    "sint (last (output_shapes d') ! 1) < 28"
    by blast
  from r(1) have ri:
    "tconv_random_init tconv_fresh [7, 7, 50] [28, 28, 3] (2 ^ 62) 3 None wrap_draws False = Inr d'"
    by (simp add: tconv_random_init_def del: tconv_init_loop.simps)
  have ok: "tconv_draw_ok (2 ^ 62) 3 big_tconv_draw" "tconv_draw_ok (2 ^ 62) 3 slow_tconv_draw"
    by (simp_all add: tconv_draw_ok_def big_tconv_draw_def slow_tconv_draw_def)
  from r ri ok show ?thesis by (simp del: tconv_init_loop.simps)
qed

section \<open>Further facts about insertion into a convolutional descriptor\<close>

text \<open>
  Every returning call of \<^verbatim>\<open>ConvDescriptor.add_layer\<close> returns 0 exactly when both spatial
  sizes of the last cached shape exceed 2, and 1 otherwise; on 1 the descriptor differs from
  the one before the call in \<^verbatim>\<open>layers\<close> alone.
\<close>

lemma conv_add_layer_Inr:
  assumes "conv_add_layer d pos lay_type lay_params c = Inr (status, d')"
  shows "(status = 0 \<and> last_shape_roomy (shapes d) = Inr True \<and>
            layers d' = py_insert (layers d) pos lay_type \<and>
            number_hidden_layers d' = number_hidden_layers d + 1) \<or>
         (status = 1 \<and> last_shape_roomy (shapes d) = Inr False \<and>
            d' = d\<lparr>layers := py_insert (layers d) pos lay_type\<rparr>)"
proof -
  obtain p0 p1 p2 p3 where lp: "lay_params = (p0, p1, p2, p3)" by (cases lay_params) auto
  from assms lp obtain roomy where r: "last_shape_roomy (shapes d) = Inr roomy"
    by (auto simp add: conv_add_layer_def then_do_Inr Let_def)
  show ?thesis
  proof (cases roomy)
    case True
    with assms lp r obtain e where "reset_shapes e = Inr d'" "status = 0"
      "layers e = py_insert (layers d) pos lay_type"
      "number_hidden_layers e = number_hidden_layers d + 1"
      by (auto simp add: conv_add_layer_def then_do_Inr Let_def split: if_splits)
    with reset_shapes_Inr [of e d'] r True show ?thesis by auto
  next
    case False
    with assms lp r show ?thesis by (simp add: conv_add_layer_def Let_def)
  qed
qed

text \<open>
  After an insertion and the removal at the same position, \<^verbatim>\<open>layers\<close> holds the inserted
  kind still: \<^verbatim>\<open>ConvDescriptor.remove_layer\<close> pops no entry of it.
\<close>

lemma conv_add_then_remove_layers:
  assumes "conv_consistent d" and "last_shape_roomy (shapes d) = Inr True"
    and "0 \<le> pos" and "pos \<le> number_hidden_layers d" and "lay_type \<le> 2"
  shows "\<exists>d1 d2. conv_add_layer d pos lay_type lay_params c = Inr (0, d1) \<and>
           conv_remove_layer d1 pos = Inr d2 \<and>
           layers d2 = py_insert (layers d) pos lay_type \<and>
           length (layers d2) = Suc (length (layers d))"
proof -
  obtain p0 p1 p2 p3 where lp: "lay_params = (p0, p1, p2, p3)" by (cases lay_params) auto
  from assms obtain d1 where d1: "conv_add_layer d pos lay_type (p0, p1, p2, p3) c = Inr (0, d1)"
      "layers d1 = py_insert (layers d) pos lay_type"
      "number_hidden_layers d1 = number_hidden_layers d + 1"
      "filters d1 = py_insert (filters d) pos (Flat [p1, p1, if lay_type < 2 then 1 else c])"
      "act_functions d1 = py_insert (act_functions d) pos (if lay_type < 2 then None else p2)"
      "init_functions d1 = py_insert (init_functions d) pos (if lay_type < 2 then None else p3)"
      "strides d1 = py_insert (strides d) pos (Flat [p0, p0, 1])"
      "input_dim d1 = input_dim d"
    using conv_add_layer_total [of d lay_type pos p0 p1 p2 p3 c] by blast
  from assms d1 obtain d2 where "conv_remove_layer d1 pos = Inr d2" "layers d2 = layers d1"
    using conv_remove_layer_after_insert [of d pos d1] by blast
  with d1 lp show ?thesis by (auto simp add: length_py_insert)
qed

end
